theory Spec2Isabelle
  imports Complex_Main
begin

section \<open>Values and errors\<close>

text \<open>
  JavaScript numbers are modelled as exact rationals. On the integers below \<open>2^53\<close>, which
  covers every satoshi amount, doubles and rationals agree under \<open>+\<close>; the quotient by
  \<open>100000000\<close> that the facade computes is the exact one here and the nearest double in the
  source. \<open>NaN\<close> and the infinities are not values of the model.

  A thrown exception or a rejected promise is the left summand of a result.
\<close>

datatype error = Error string | TypeError string

text \<open>
  \<open>a || b\<close> where \<open>a\<close> is a property read that yields a number or \<open>undefined\<close>
  (\<open>None\<close>): \<open>undefined\<close> and \<open>0\<close> are falsy, every other number is truthy.
\<close>

definition js_or :: "rat option \<Rightarrow> rat option \<Rightarrow> rat option" where
  "js_or a b = (case a of None \<Rightarrow> b | Some x \<Rightarrow> if x = 0 then b else Some x)"

definition or_num :: "rat option \<Rightarrow> rat \<Rightarrow> rat" where
  "or_num a n = (case a of None \<Rightarrow> n | Some x \<Rightarrow> if x = 0 then n else x)"

section \<open>Balance normalizer (02-normalizers.js)\<close>

text \<open>
  What a wallet hands to \<open>normalizeBalance\<close>: a bare number, an object whose properties
  (where present) are numbers, \<open>null\<close>/\<open>undefined\<close>, or another primitive (a string or a
  boolean, on which every property read yields \<open>undefined\<close>).
\<close>

datatype balance_data =
    BNum rat
  | BObj "string \<rightharpoonup> rat"
  | BNullish
  | BOther

record canonical_balance =
  confirmed :: rat
  unconfirmed :: rat
  total_bal :: rat

text \<open>The object branch of \<open>normalizeBalance\<close>, statement by statement.\<close>

definition normalize_object :: "(string \<rightharpoonup> rat) \<Rightarrow> string \<Rightarrow> canonical_balance" where
  "normalize_object balance walletName =
     (let n0 = \<lparr>confirmed = or_num (js_or (js_or (balance ''confirmed'') (balance ''amount''))
                                         (balance ''total'')) 0,
                unconfirmed = or_num (js_or (balance ''unconfirmed'') (balance ''pending'')) 0,
                total_bal = 0\<rparr>;
          n1 = n0\<lparr>total_bal := or_num (balance ''total'') (confirmed n0 + unconfirmed n0)\<rparr>;
          n2 = (if walletName = ''Xverse'' then
                  n1\<lparr>confirmed := or_num (balance ''confirmed'') 0,
                     unconfirmed := or_num (balance ''unconfirmed'') 0\<rparr>
                else if walletName = ''UniSat'' then
                  n1\<lparr>confirmed := or_num (js_or (balance ''confirm'') (balance ''confirmed'')) 0,
                     unconfirmed := or_num (js_or (balance ''pending'') (balance ''unconfirmed'')) 0\<rparr>
                else n1)
      in n2\<lparr>total_bal := confirmed n2 + unconfirmed n2\<rparr>)"

definition normalizeBalance :: "balance_data \<Rightarrow> string \<Rightarrow> error + canonical_balance" where
  "normalizeBalance balance walletName =
     (case balance of
        BNum n \<Rightarrow> Inr \<lparr>confirmed = n, unconfirmed = 0, total_bal = n\<rparr>
      | BObj f \<Rightarrow> Inr (normalize_object f walletName)
      | BNullish \<Rightarrow> Inl (TypeError ''Cannot read properties of null or undefined'')
      | BOther \<Rightarrow> Inr (normalize_object Map.empty walletName))"

text \<open>The normalized object as a property map, to compare it with an input object.\<close>

definition balance_object :: "canonical_balance \<Rightarrow> (string \<rightharpoonup> rat)" where
  "balance_object b =
     [''confirmed'' \<mapsto> confirmed b, ''unconfirmed'' \<mapsto> unconfirmed b, ''total'' \<mapsto> total_bal b]"

section \<open>JavaScript values\<close>

text \<open>
  The values that cross the boundary to the injected wallet object where their shape is not
  fixed: what \<open>getInscriptions\<close> resolves to, the arguments of a pass-through call, and what
  a facade operation resolves to.
\<close>

datatype jsval =
    JUndef
  | JNull
  | JBool bool
  | JNum rat
  | JStr string
  | JArr "jsval list"
  | JObj "(string \<times> jsval) list"

fun truthy :: "jsval \<Rightarrow> bool" where
  "truthy JUndef = False"
| "truthy JNull = False"
| "truthy (JBool b) = b"
| "truthy (JNum r) = (r \<noteq> 0)"
| "truthy (JStr s) = (s \<noteq> [])"
| "truthy (JArr xs) = True"
| "truthy (JObj fs) = True"

text \<open>
  A property read \<open>v.k\<close> for a key that is no built-in property of arrays, strings, numbers
  or booleans: it throws on \<open>null\<close> and \<open>undefined\<close>, looks the key up in an object, and
  is \<open>undefined\<close> on everything else.
\<close>

fun js_prop :: "jsval \<Rightarrow> string \<Rightarrow> error + jsval" where
  "js_prop JUndef k = Inl (TypeError (''Cannot read properties of undefined (reading '' @ k @ '')''))"
| "js_prop JNull k = Inl (TypeError (''Cannot read properties of null (reading '' @ k @ '')''))"
| "js_prop (JObj fs) k = Inr (case map_of fs k of None \<Rightarrow> JUndef | Some v \<Rightarrow> v)"
| "js_prop v k = Inr JUndef"

section \<open>Provider contract (01-base-provider.js)\<close>

text \<open>
  The capability descriptor: a flag, or an object of nested descriptors.
\<close>

datatype feat = Flag bool | Feats "(string \<times> feat) list"

text \<open>
  The browser-injected wallet object: the methods it exposes, by name. A method takes its
  argument list and resolves (\<open>Inr\<close>) or rejects (\<open>Inl\<close>).
\<close>

type_synonym handle = "string \<rightharpoonup> (jsval list \<Rightarrow> error + jsval)"

text \<open>
  The fields of a \<open>BaseWalletProvider\<close>. \<open>address\<close> and \<open>publicKey\<close> are \<open>null\<close>
  (\<open>None\<close>) or a string; the empty string is falsy, as \<open>null\<close> is.
\<close>

record provider =
  name :: string
  isConnected :: bool
  address :: "string option"
  publicKey :: "string option"
  walletInstance :: "handle option"
  features :: feat

definition truthy_str :: "string option \<Rightarrow> bool" where
  "truthy_str s = (case s of None \<Rightarrow> False | Some x \<Rightarrow> x \<noteq> [])"

definition requireInstalled :: "provider \<Rightarrow> error + unit" where
  "requireInstalled this =
     (if walletInstance this = None
      then Inl (Error (name this @ '' wallet not installed or not detected''))
      else Inr ())"

definition requireConnected :: "provider \<Rightarrow> error + unit" where
  "requireConnected this =
     (if \<not> isConnected this \<or> \<not> truthy_str (address this)
      then Inl (Error (name this @ '' wallet not connected. Please connect first.''))
      else Inr ())"

text \<open>\<open>this.walletInstance.m\<close>, read after \<open>requireInstalled\<close> has passed.\<close>

definition handle_method :: "provider \<Rightarrow> string \<Rightarrow> (jsval list \<Rightarrow> error + jsval) option" where
  "handle_method this m = (case walletInstance this of None \<Rightarrow> None | Some h \<Rightarrow> h m)"

subsection \<open>Capability guard\<close>

text \<open>\<open>methodPath.split('.')\<close>\<close>

fun split_dot :: "string \<Rightarrow> string list" where
  "split_dot [] = [[]]"
| "split_dot (c # cs) =
     (if c = CHR ''.'' then [] # split_dot cs
      else (case split_dot cs of [] \<Rightarrow> [[c]] | p # ps \<Rightarrow> (c # p) # ps))"

text \<open>
  The loop of \<open>supportsMethod\<close> over the parts of the path. \<open>current\<close> is \<open>None\<close>
  when a property read has produced \<open>undefined\<close>.
\<close>

fun walk :: "feat option \<Rightarrow> string list \<Rightarrow> bool" where
  "walk current [] = (current = Some (Flag True))"
| "walk current (part # parts) =
     (case current of
        Some (Feats fs) \<Rightarrow> walk (map_of fs part) parts
      | _ \<Rightarrow> current = Some (Flag True))"

definition supportsMethod :: "provider \<Rightarrow> string \<Rightarrow> bool" where
  "supportsMethod this methodPath = walk (Some (features this)) (split_dot methodPath)"

text \<open>
  A call into the provider yields its result together with the methods of the injected
  wallet object that it invoked, in order.
\<close>

type_synonym 'r call = "(error + 'r) \<times> string list"

text \<open>\<open>errorMsg\<close> is \<open>None\<close> when the caller passes no third argument.\<close>

definition safeCall :: "provider \<Rightarrow> string \<Rightarrow> (unit \<Rightarrow> 'r call) \<Rightarrow> string option \<Rightarrow> 'r call" where
  "safeCall this methodPath callback errorMsg =
     (if \<not> supportsMethod this methodPath then
        (Inl (Error (if truthy_str errorMsg then the errorMsg
                     else name this @ '' does not support '' @ methodPath)), [])
      else callback ())"

text \<open>The first positional argument of a call, \<open>undefined\<close> when there is none.\<close>

definition arg0 :: "jsval list \<Rightarrow> jsval" where
  "arg0 args = (case args of [] \<Rightarrow> JUndef | a # _ \<Rightarrow> a)"

text \<open>
  The later positional arguments, and a parameter with the default value \<open>{}\<close>, which
  applies when the argument is \<open>undefined\<close>.
\<close>

definition arg :: "nat \<Rightarrow> jsval list \<Rightarrow> jsval" where
  "arg n args = (if n < length args then args ! n else JUndef)"

definition options_arg :: "nat \<Rightarrow> jsval list \<Rightarrow> jsval" where
  "options_arg n args = (if arg n args = JUndef then JObj [] else arg n args)"

definition base_getPublicKey :: "provider \<Rightarrow> jsval list \<Rightarrow> jsval call" where
  "base_getPublicKey this args =
     (case requireInstalled this of Inl e \<Rightarrow> (Inl e, []) | Inr _ \<Rightarrow>
      case requireConnected this of Inl e \<Rightarrow> (Inl e, []) | Inr _ \<Rightarrow>
      safeCall this ''getPublicKey''
        (\<lambda>_. case handle_method this ''getPublicKey'' of
                Some m \<Rightarrow> (m [], [''getPublicKey''])
              | None \<Rightarrow> (Inl (Error (name this @ '': getPublicKey not implemented'')), []))
        None)"

definition base_getNetwork :: "provider \<Rightarrow> jsval list \<Rightarrow> jsval call" where
  "base_getNetwork this args =
     (case requireInstalled this of Inl e \<Rightarrow> (Inl e, []) | Inr _ \<Rightarrow>
      safeCall this ''getNetwork''
        (\<lambda>_. case handle_method this ''getNetwork'' of
                Some m \<Rightarrow> (m [], [''getNetwork''])
              | None \<Rightarrow> (Inl (Error (name this @ '': getNetwork not implemented'')), []))
        None)"

definition base_switchNetwork :: "provider \<Rightarrow> jsval list \<Rightarrow> jsval call" where
  "base_switchNetwork this args =
     (case requireInstalled this of Inl e \<Rightarrow> (Inl e, []) | Inr _ \<Rightarrow>
      safeCall this ''switchNetwork''
        (\<lambda>_. case handle_method this ''switchNetwork'' of
                Some m \<Rightarrow> (m [arg0 args], [''switchNetwork''])
              | None \<Rightarrow> (Inl (Error (name this @ '': switchNetwork not implemented'')), []))
        None)"

text \<open>
  The fallback of \<open>signPsbts\<close>: \<open>this.signPsbt\<close> on every element, in order, up to
  the first rejection. What \<open>for ... of\<close> iterates over is the elements of an array or
  the characters of a string; on anything else it throws.
\<close>

fun sign_each :: "(jsval list \<Rightarrow> jsval call) \<Rightarrow> jsval \<Rightarrow> jsval list \<Rightarrow> (jsval list) call" where
  "sign_each signPsbt options [] = (Inr [], [])"
| "sign_each signPsbt options (psbt # rest) =
     (case signPsbt [psbt, options] of
        (Inl e, hs) \<Rightarrow> (Inl e, hs)
      | (Inr v, hs) \<Rightarrow>
          (case sign_each signPsbt options rest of
             (Inl e, hs') \<Rightarrow> (Inl e, hs @ hs')
           | (Inr vs, hs') \<Rightarrow> (Inr (v # vs), hs @ hs')))"

definition iterate :: "jsval \<Rightarrow> error + jsval list" where
  "iterate v =
     (case v of
        JArr xs \<Rightarrow> Inr xs
      | JStr cs \<Rightarrow> Inr (map (\<lambda>c. JStr [c]) cs)
      | _ \<Rightarrow> Inl (TypeError ''psbtHexs is not iterable''))"

text \<open>The second argument is \<open>this.signPsbt\<close>, which an adapter may override.\<close>

definition base_signPsbts ::
  "provider \<Rightarrow> (jsval list \<Rightarrow> jsval call) \<Rightarrow> jsval list \<Rightarrow> jsval call" where
  "base_signPsbts this signPsbt args =
     (case requireInstalled this of Inl e \<Rightarrow> (Inl e, []) | Inr _ \<Rightarrow>
      case requireConnected this of Inl e \<Rightarrow> (Inl e, []) | Inr _ \<Rightarrow>
      safeCall this ''signPsbts''
        (\<lambda>_. case handle_method this ''signPsbts'' of
                Some m \<Rightarrow> (m [arg0 args, options_arg 1 args], [''signPsbts''])
              | None \<Rightarrow>
                  (case iterate (arg0 args) of
                     Inl e \<Rightarrow> (Inl e, [])
                   | Inr psbtHexs \<Rightarrow>
                       (case sign_each signPsbt (options_arg 1 args) psbtHexs of
                          (Inl e, hs) \<Rightarrow> (Inl e, hs)
                        | (Inr results, hs) \<Rightarrow> (Inr (JArr results), hs))))
        None)"

definition base_sendInscription :: "provider \<Rightarrow> jsval list \<Rightarrow> jsval call" where
  "base_sendInscription this args =
     (case requireInstalled this of Inl e \<Rightarrow> (Inl e, []) | Inr _ \<Rightarrow>
      case requireConnected this of Inl e \<Rightarrow> (Inl e, []) | Inr _ \<Rightarrow>
      safeCall this ''sendInscription''
        (\<lambda>_. case handle_method this ''sendInscription'' of
                Some m \<Rightarrow> (m [arg0 args, arg 1 args, options_arg 2 args], [''sendInscription''])
              | None \<Rightarrow> (Inl (Error (name this @ '': sendInscription not implemented'')), []))
        None)"

definition base_inscribe :: "provider \<Rightarrow> jsval list \<Rightarrow> jsval call" where
  "base_inscribe this args =
     (case requireInstalled this of Inl e \<Rightarrow> (Inl e, []) | Inr _ \<Rightarrow>
      case requireConnected this of Inl e \<Rightarrow> (Inl e, []) | Inr _ \<Rightarrow>
      safeCall this ''inscribe''
        (\<lambda>_. case handle_method this ''inscribe'' of
                Some m \<Rightarrow> (m [arg0 args, options_arg 1 args], [''inscribe''])
              | None \<Rightarrow> (Inl (Error (name this @ '': inscribe not implemented'')), []))
        None)"

definition base_pushPsbt :: "provider \<Rightarrow> jsval list \<Rightarrow> jsval call" where
  "base_pushPsbt this args =
     (case requireInstalled this of Inl e \<Rightarrow> (Inl e, []) | Inr _ \<Rightarrow>
      case requireConnected this of Inl e \<Rightarrow> (Inl e, []) | Inr _ \<Rightarrow>
      safeCall this ''pushPsbt''
        (\<lambda>_. case handle_method this ''pushPsbt'' of
                Some m \<Rightarrow> (m [arg0 args], [''pushPsbt''])
              | None \<Rightarrow> (Inl (Error (name this @ '': pushPsbt not implemented'')), []))
        None)"

definition base_pushTx :: "provider \<Rightarrow> jsval list \<Rightarrow> jsval call" where
  "base_pushTx this args =
     (case requireInstalled this of Inl e \<Rightarrow> (Inl e, []) | Inr _ \<Rightarrow>
      case requireConnected this of Inl e \<Rightarrow> (Inl e, []) | Inr _ \<Rightarrow>
      safeCall this ''pushTx''
        (\<lambda>_. case handle_method this ''pushTx'' of
                Some m \<Rightarrow> (m [arg0 args], [''pushTx''])
              | None \<Rightarrow> (Inl (Error (name this @ '': pushTx not implemented'')), []))
        None)"

text \<open>The generic \<open>disconnect\<close>; the reset of the provider's own fields is not observed.\<close>

definition base_disconnect :: "provider \<Rightarrow> unit call" where
  "base_disconnect this =
     (case handle_method this ''disconnect'' of
        Some m \<Rightarrow> (case m [] of Inl e \<Rightarrow> (Inl e, [''disconnect''])
                   | Inr _ \<Rightarrow> (Inr (), [''disconnect'']))
      | None \<Rightarrow> (Inr (), []))"

subsection \<open>Capability descriptors of the adapters\<close>

definition no_protocols :: "(string \<times> feat) list" where
  "no_protocols =
     [(''brc20'', Feats [(''transfer'', Flag False), (''deploy'', Flag False), (''mint'', Flag False)]),
      (''runes'', Feats [(''send'', Flag False), (''mint'', Flag False), (''etch'', Flag False)]),
      (''atomicals'', Feats [(''transfer'', Flag False), (''mint'', Flag False)]),
      (''arc20'', Feats [(''transfer'', Flag False)])]"

definition base_features :: feat where
  "base_features = Feats
     ([(''connect'', Flag True), (''getAddress'', Flag True), (''getPublicKey'', Flag False),
       (''getBalance'', Flag True), (''getNetwork'', Flag False), (''switchNetwork'', Flag False),
       (''signMessage'', Flag True), (''signPsbt'', Flag True), (''signPsbts'', Flag False),
       (''pushPsbt'', Flag False), (''pushTx'', Flag False), (''sendBitcoin'', Flag True),
       (''sendInscription'', Flag False), (''getInscriptions'', Flag True),
       (''getAllInscriptions'', Flag True), (''inscribe'', Flag False)] @ no_protocols)"

definition leather_features :: feat where
  "leather_features = Feats
     [(''connect'', Flag True), (''getAddress'', Flag True), (''getPublicKey'', Flag False),
      (''getBalance'', Flag False), (''getNetwork'', Flag False), (''switchNetwork'', Flag False),
      (''signMessage'', Flag True), (''signPsbt'', Flag True), (''signPsbts'', Flag False),
      (''pushPsbt'', Flag False), (''pushTx'', Flag False), (''sendBitcoin'', Flag False),
      (''sendInscription'', Flag False), (''getInscriptions'', Flag False),
      (''getAllInscriptions'', Flag False), (''inscribe'', Flag False),
      (''brc20'', Flag False), (''runes'', Flag False), (''atomicals'', Flag False),
      (''arc20'', Flag False), (''stacksSupport'', Flag True), (''structuredData'', Flag True),
      (''authentication'', Flag True), (''stacksTransaction'', Flag True),
      (''profileUpdate'', Flag True), (''getProductInfo'', Flag True), (''getURL'', Flag True)]"

definition magiceden_features :: feat where
  "magiceden_features = Feats
     ([(''connect'', Flag True), (''getAddress'', Flag True), (''getPublicKey'', Flag False),
       (''getBalance'', Flag False), (''getNetwork'', Flag True), (''switchNetwork'', Flag False),
       (''signMessage'', Flag True), (''signPsbt'', Flag True), (''signPsbts'', Flag True),
       (''signTransaction'', Flag True), (''pushPsbt'', Flag False), (''pushTx'', Flag False),
       (''sendBitcoin'', Flag True), (''sendInscription'', Flag False),
       (''getInscriptions'', Flag False), (''getAllInscriptions'', Flag False),
       (''inscribe'', Flag False)] @ no_protocols @
      [(''jwtAuth'', Flag True), (''hardwareDetection'', Flag True)])"

definition oyl_features :: feat where
  "oyl_features = Feats
     ([(''connect'', Flag True), (''getAddress'', Flag True), (''getPublicKey'', Flag False),
       (''getBalance'', Flag True), (''getNetwork'', Flag True), (''switchNetwork'', Flag True),
       (''signMessage'', Flag True), (''signPsbt'', Flag True), (''signPsbts'', Flag True),
       (''pushPsbt'', Flag True), (''pushTx'', Flag False), (''sendBitcoin'', Flag True),
       (''sendInscription'', Flag False), (''getInscriptions'', Flag True),
       (''getAllInscriptions'', Flag True), (''inscribe'', Flag False)] @ no_protocols @
      [(''relayProvider'', Flag True)])"

text \<open>
  The constructors, applied to the injected object that the adapter finds in the global
  scope (\<open>None\<close> when there is none). The adapters' secondary addresses are not modelled.
\<close>

definition LeatherProvider :: "handle option \<Rightarrow> provider" where
  "LeatherProvider w =
     \<lparr>name = ''Leather'', isConnected = False, address = None, publicKey = None,
      walletInstance = w, features = leather_features\<rparr>"

definition MagicEdenProvider :: "handle option \<Rightarrow> provider" where
  "MagicEdenProvider w =
     \<lparr>name = ''MagicEden'', isConnected = False, address = None, publicKey = None,
      walletInstance = w, features = magiceden_features\<rparr>"

definition OylProvider :: "handle option \<Rightarrow> provider" where
  "OylProvider w =
     \<lparr>name = ''Oyl'', isConnected = False, address = None, publicKey = None,
      walletInstance = w, features = oyl_features\<rparr>"

text \<open>\<open>isInstalled\<close>, the same in the three adapters: \<open>!!this.walletInstance\<close>.\<close>

definition isInstalled :: "provider \<Rightarrow> bool" where
  "isInstalled this = (walletInstance this \<noteq> None)"

text \<open>
  \<open>getBalance\<close> of the Magic Eden adapter (10-magiceden-provider.js): the wallet has no
  balance API and the adapter answers with zeros.
\<close>

definition magiceden_getBalance :: "provider \<Rightarrow> balance_data call" where
  "magiceden_getBalance this =
     (case requireConnected this of Inl e \<Rightarrow> (Inl e, [])
      | Inr _ \<Rightarrow> (Inr (BObj [''confirmed'' \<mapsto> 0, ''unconfirmed'' \<mapsto> 0, ''total'' \<mapsto> 0]), []))"

text \<open>\<open>getNetwork\<close> of the Magic Eden adapter: the constant \<open>'mainnet'\<close>.\<close>

definition magiceden_getNetwork :: "provider \<Rightarrow> jsval list \<Rightarrow> jsval call" where
  "magiceden_getNetwork this args = (Inr (JStr ''mainnet''), [])"

subsection \<open>Pagination\<close>

definition pageSize :: nat where "pageSize = 100"
definition maxPages :: nat where "maxPages = 100"

definition base_getInscriptions :: "provider \<Rightarrow> nat \<Rightarrow> nat \<Rightarrow> error + jsval" where
  "base_getInscriptions this cursor sz =
     (case requireInstalled this of Inl e \<Rightarrow> Inl e | Inr _ \<Rightarrow>
      case requireConnected this of Inl e \<Rightarrow> Inl e | Inr _ \<Rightarrow>
      case handle_method this ''getInscriptions'' of
        Some m \<Rightarrow> m [JNum (of_nat cursor), JNum (of_nat sz)]
      | None \<Rightarrow> Inl (Error (name this @ '': getInscriptions not implemented'')))"

text \<open>\<open>result.list || result.inscriptions || result\<close>\<close>

definition page_of :: "jsval \<Rightarrow> error + jsval" where
  "page_of result =
     (case js_prop result ''list'' of Inl e \<Rightarrow> Inl e | Inr l \<Rightarrow>
        if truthy l then Inr l else
        (case js_prop result ''inscriptions'' of Inl e \<Rightarrow> Inl e | Inr i \<Rightarrow>
           if truthy i then Inr i else Inr result))"

text \<open>
  The \<open>while\<close> loop of \<open>getAllInscriptions\<close>. Its state is the source's
  \<open>allInscriptions\<close>, \<open>cursor\<close> and \<open>pageCount\<close>; \<open>requests\<close> records the
  \<open>(cursor, size)\<close> of every page request issued, oldest first. The first argument is
  \<open>this.getInscriptions\<close>, which an adapter may override.
\<close>

function pages_loop ::
  "(nat \<Rightarrow> nat \<Rightarrow> error + jsval) \<Rightarrow> jsval list \<Rightarrow> nat \<Rightarrow> nat \<Rightarrow> (nat \<times> nat) list
     \<Rightarrow> error + (jsval list \<times> nat \<times> (nat \<times> nat) list)" where
  "pages_loop getInscriptions allInscriptions cursor pageCount requests =
     (if pageCount < maxPages then
        (case getInscriptions cursor pageSize of
           Inl e \<Rightarrow> Inl e
         | Inr result \<Rightarrow>
             (case page_of result of
                Inl e \<Rightarrow> Inl e
              | Inr (JArr inscriptions) \<Rightarrow>
                  if inscriptions = [] then
                    Inr (allInscriptions, pageCount, requests @ [(cursor, pageSize)])
                  else if length inscriptions < pageSize then
                    Inr (allInscriptions @ inscriptions, pageCount,
                         requests @ [(cursor, pageSize)])
                  else
                    pages_loop getInscriptions (allInscriptions @ inscriptions)
                      (cursor + pageSize) (pageCount + 1) (requests @ [(cursor, pageSize)])
              | Inr _ \<Rightarrow> Inr (allInscriptions, pageCount, requests @ [(cursor, pageSize)])))
      else Inr (allInscriptions, pageCount, requests))"
  by pat_completeness auto
termination
  by (relation "measure (\<lambda>(g, a, c, p, r). maxPages - p)") auto

declare pages_loop.simps [simp del]

text \<open>
  What \<open>getAllInscriptions\<close> resolves to, with what it did on the way: the page requests
  it issued and the warnings it wrote to the console.
\<close>

record all_inscriptions =
  inscriptions :: "jsval list"
  page_requests :: "(nat \<times> nat) list"
  warnings :: "string list"

text \<open>
  The console line of the safety limit. Its first six bytes are the UTF-8 encoding of the
  warning sign that opens the source's template string; \<open>maxPages * pageSize\<close> is
  \<open>10000\<close>.
\<close>

definition limit_warning :: "string \<Rightarrow> string" where
  "limit_warning n =
     [CHR 0xE2, CHR 0x9A, CHR 0xA0, CHR 0xEF, CHR 0xB8, CHR 0x8F] @ '' '' @ n @
     '': Reached pagination safety limit (10000 inscriptions)''"

definition base_getAllInscriptions ::
  "provider \<Rightarrow> (nat \<Rightarrow> nat \<Rightarrow> error + jsval) \<Rightarrow> error + all_inscriptions" where
  "base_getAllInscriptions this getInscriptions =
     (case requireInstalled this of Inl e \<Rightarrow> Inl e | Inr _ \<Rightarrow>
      case requireConnected this of Inl e \<Rightarrow> Inl e | Inr _ \<Rightarrow>
      case pages_loop getInscriptions [] 0 0 [] of
        Inl e \<Rightarrow> Inl e
      | Inr (allInscriptions, pageCount, requests) \<Rightarrow>
          Inr \<lparr>inscriptions = allInscriptions,
               page_requests = requests,
               warnings = (if pageCount \<ge> maxPages then [limit_warning (name this)] else [])\<rparr>)"

text \<open>
  The array a page request contributes to the loop, when it has one: the request resolves
  and \<open>result.list || result.inscriptions || result\<close> is an array.
\<close>

definition page_items :: "error + jsval \<Rightarrow> jsval list option" where
  "page_items r =
     (case r of Inl e \<Rightarrow> None
      | Inr result \<Rightarrow> (case page_of result of Inr (JArr xs) \<Rightarrow> Some xs | _ \<Rightarrow> None))"

text \<open>
  A page source that returns exactly the requested number of items on each of the first
  \<open>N\<close> pages and \<open>k\<close> items on every later page.
\<close>

definition page_source :: "nat \<Rightarrow> nat \<Rightarrow> nat \<Rightarrow> nat \<Rightarrow> error + jsval" where
  "page_source N k cursor sz = Inr (JArr (replicate (if cursor < N * sz then sz else k) JNull))"

text \<open>
  How many items a call of \<open>getAllInscriptions\<close> returned and how many page requests it
  performed, when it resolved.
\<close>

definition items_and_requests :: "error + all_inscriptions \<Rightarrow> (nat \<times> nat) option" where
  "items_and_requests r =
     (case r of Inl e \<Rightarrow> None
      | Inr a \<Rightarrow> Some (length (inscriptions a), length (page_requests a)))"

section \<open>Facade and connection-state store (NexusWalletConnect loader)\<close>

subsection \<open>Provider instances\<close>

text \<open>
  What \<open>provider.connect()\<close> resolves to, as far as the facade reads it:
  \<open>result.address\<close> and \<open>result.publicKey\<close> (\<open>None\<close> when absent).
\<close>

record connect_result =
  res_address :: "string option"
  res_publicKey :: "string option"

text \<open>
  A provider instance is its fields together with the methods its class gives it. The
  facade calls these methods and nothing else; which implementation it reaches depends on
  the adapter, so the methods are part of the instance. \<open>connect_m\<close> returns the provider
  as its handshake leaves it.
\<close>

record methods =
  isInstalled_m :: "provider \<Rightarrow> bool"
  connect_m :: "provider \<Rightarrow> (error + connect_result) \<times> provider"
  disconnect_m :: "provider \<Rightarrow> unit call"
  getBalance_m :: "provider \<Rightarrow> balance_data call"
  pushPsbt_m :: "provider \<Rightarrow> jsval list \<Rightarrow> jsval call"
  pushTx_m :: "provider \<Rightarrow> jsval list \<Rightarrow> jsval call"
  getPublicKey_m :: "provider \<Rightarrow> jsval list \<Rightarrow> jsval call"
  getNetwork_m :: "provider \<Rightarrow> jsval list \<Rightarrow> jsval call"
  switchNetwork_m :: "provider \<Rightarrow> jsval list \<Rightarrow> jsval call"
  signPsbts_m :: "provider \<Rightarrow> jsval list \<Rightarrow> jsval call"
  sendInscription_m :: "provider \<Rightarrow> jsval list \<Rightarrow> jsval call"
  inscribe_m :: "provider \<Rightarrow> jsval list \<Rightarrow> jsval call"

record wallet_provider =
  self :: provider
  impl :: methods

subsection \<open>State\<close>

text \<open>
  The connection-state object. Its \<open>isConnected\<close>, \<open>address\<close> and \<open>publicKey\<close>
  carry the suffix \<open>_s\<close> to tell them from the provider's fields of the same names.
\<close>

record conn_state =
  isConnected_s :: bool
  walletType :: "string option"
  address_s :: "string option"
  publicKey_s :: "string option"
  balance :: "rat option"
  provider :: "wallet_provider option"

text \<open>The object literal passed to \<open>setState\<close>: its properties, in order.\<close>

datatype assignment =
    IsConnected bool
  | WalletType "string option"
  | Address "string option"
  | PublicKey "string option"
  | Balance "rat option"
  | Provider "wallet_provider option"

fun assign :: "assignment \<Rightarrow> conn_state \<Rightarrow> conn_state" where
  "assign (IsConnected b) s = s\<lparr>isConnected_s := b\<rparr>"
| "assign (WalletType w) s = s\<lparr>walletType := w\<rparr>"
| "assign (Address a) s = s\<lparr>address_s := a\<rparr>"
| "assign (PublicKey k) s = s\<lparr>publicKey_s := k\<rparr>"
| "assign (Balance b) s = s\<lparr>balance := b\<rparr>"
| "assign (Provider p) s = s\<lparr>provider := p\<rparr>"

text \<open>\<open>{ ...currentState, ...newState }\<close>\<close>

definition spread :: "conn_state \<Rightarrow> assignment list \<Rightarrow> conn_state" where
  "spread s newState = fold assign newState s"

text \<open>
  State objects live in a heap and are passed by reference. A subscriber is called with a
  reference; it may write to the object behind it and it may throw. Subscribers are kept
  with the identity of their function object, in insertion order, as the source's \<open>Set\<close>
  keeps them. A subscriber that calls back into the facade is outside the model.
\<close>

type_synonym ref = nat
type_synonym heap = "ref \<Rightarrow> conn_state"
type_synonym callback = "ref \<Rightarrow> heap \<Rightarrow> heap \<times> error option"

text \<open>
  What the facade does to the outside, oldest first: the provider methods it invokes (by
  provider name and method), the methods of the injected object that these reach, and its
  two console warnings (\<open>Disconnect failed:\<close> and \<open>Could not fetch balance:\<close>).
\<close>

datatype event =
    Invoke string string
  | Handle string string
  | WarnDisconnectFailed error
  | WarnNoBalance error

record store =
  heap :: heap
  currentState :: ref
  fresh :: ref
  subscribers :: "(nat \<times> callback) list"
  trace :: "event list"

definition disconnected :: conn_state where
  "disconnected =
     \<lparr>isConnected_s = False, walletType = None, address_s = None, publicKey_s = None,
      balance = None, provider = None\<rparr>"

definition initial_store :: store where
  "initial_store =
     \<lparr>heap = (\<lambda>_. disconnected), currentState = 0, fresh = 1, subscribers = [], trace = []\<rparr>"

text \<open>The object \<open>currentState\<close> refers to.\<close>

definition current :: "store \<Rightarrow> conn_state" where
  "current st = heap st (currentState st)"

text \<open>\<open>subscribers.forEach(callback => callback(currentState))\<close>\<close>

fun forEach :: "callback list \<Rightarrow> store \<Rightarrow> (error + unit) \<times> store" where
  "forEach [] st = (Inr (), st)"
| "forEach (callback # rest) st =
     (case callback (currentState st) (heap st) of
        (h, None) \<Rightarrow> forEach rest (st\<lparr>heap := h\<rparr>)
      | (h, Some e) \<Rightarrow> (Inl e, st\<lparr>heap := h\<rparr>))"

definition setState :: "assignment list \<Rightarrow> store \<Rightarrow> (error + unit) \<times> store" where
  "setState newState st =
     (let r = fresh st;
          st1 = st\<lparr>heap := (heap st)(r := spread (current st) newState),
                    currentState := r, fresh := Suc r\<rparr>
      in forEach (map snd (subscribers st1)) st1)"

text \<open>\<open>getState\<close> returns a reference to a new object with the same properties.\<close>

definition getState :: "store \<Rightarrow> ref \<times> store" where
  "getState st =
     (let r = fresh st
      in (r, st\<lparr>heap := (heap st)(r := current st), fresh := Suc r\<rparr>))"

text \<open>\<open>subscribe\<close> returns the handle that removes the callback again.\<close>

definition subscribe :: "nat \<times> callback \<Rightarrow> store \<Rightarrow> store" where
  "subscribe cb st =
     (if fst cb \<in> fst ` set (subscribers st) then st
      else st\<lparr>subscribers := subscribers st @ [cb]\<rparr>)"

definition unsubscribe :: "nat \<Rightarrow> store \<Rightarrow> store" where
  "unsubscribe i st = st\<lparr>subscribers := filter (\<lambda>cb. fst cb \<noteq> i) (subscribers st)\<rparr>"

definition emit :: "event list \<Rightarrow> store \<Rightarrow> store" where
  "emit es st = st\<lparr>trace := trace st @ es\<rparr>"

subsection \<open>Operations\<close>

definition disconnect :: "store \<Rightarrow> (error + unit) \<times> store" where
  "disconnect st =
     (let st1 =
        (case provider (current st) of
           None \<Rightarrow> st
         | Some p \<Rightarrow>
             (let n = name (self p)
              in case disconnect_m (impl p) (self p) of
                   (Inr _, hs) \<Rightarrow> emit (Invoke n ''disconnect'' # map (Handle n) hs) st
                 | (Inl e, hs) \<Rightarrow>
                     emit (Invoke n ''disconnect'' # map (Handle n) hs @ [WarnDisconnectFailed e]) st))
      in setState [IsConnected False, WalletType None, Address None, PublicKey None,
                   Balance None, Provider None] st1)"

text \<open>
  The conversion to a BTC number that \<open>getBalance\<close> and \<open>connect\<close> both apply to what
  the provider's \<open>getBalance\<close> resolves to.
\<close>

definition balanceInBTC :: "balance_data \<Rightarrow> rat" where
  "balanceInBTC balanceData =
     (case balanceData of
        BNum b \<Rightarrow> if b < 1 \<and> b > 0 then b else b / 100000000
      | BObj f \<Rightarrow> or_num (js_or (f ''total'') (f ''confirmed'')) 0 / 100000000
      | BNullish \<Rightarrow> 0
      | BOther \<Rightarrow> 0)"

definition getBalance :: "store \<Rightarrow> (error + jsval) \<times> store" where
  "getBalance st =
     (case provider (current st) of
        None \<Rightarrow> (Inl (Error ''No wallet connected''), st)
      | Some p \<Rightarrow>
          (let n = name (self p)
           in case getBalance_m (impl p) (self p) of
                (Inl e, hs) \<Rightarrow> (Inl e, emit (Invoke n ''getBalance'' # map (Handle n) hs) st)
              | (Inr balanceData, hs) \<Rightarrow>
                  (case setState [Balance (Some (balanceInBTC balanceData))]
                          (emit (Invoke n ''getBalance'' # map (Handle n) hs) st) of
                     (Inl e, st') \<Rightarrow> (Inl e, st')
                   | (Inr _, st') \<Rightarrow> (Inr (JNum (balanceInBTC balanceData)), st'))))"

definition pushPsbt :: "jsval list \<Rightarrow> store \<Rightarrow> (error + jsval) \<times> store" where
  "pushPsbt args st =
     (case provider (current st) of
        None \<Rightarrow> (Inl (Error ''No wallet connected''), st)
      | Some p \<Rightarrow>
          (let n = name (self p)
           in case pushPsbt_m (impl p) (self p) args of
                (r, hs) \<Rightarrow> (r, emit (Invoke n ''pushPsbt'' # map (Handle n) hs) st)))"

definition pushTx :: "jsval list \<Rightarrow> store \<Rightarrow> (error + jsval) \<times> store" where
  "pushTx args st =
     (case provider (current st) of
        None \<Rightarrow> (Inl (Error ''No wallet connected''), st)
      | Some p \<Rightarrow>
          (let n = name (self p)
           in case pushTx_m (impl p) (self p) args of
                (r, hs) \<Rightarrow> (r, emit (Invoke n ''pushTx'' # map (Handle n) hs) st)))"

text \<open>
  The other pass-throughs whose contract default is wrapped in \<open>safeCall\<close>.
  \<open>getPublicKey\<close> and \<open>getNetwork\<close> pass no arguments on.
\<close>

definition getPublicKey :: "store \<Rightarrow> (error + jsval) \<times> store" where
  "getPublicKey st =
     (case provider (current st) of
        None \<Rightarrow> (Inl (Error ''No wallet connected''), st)
      | Some p \<Rightarrow>
          (let n = name (self p)
           in case getPublicKey_m (impl p) (self p) [] of
                (r, hs) \<Rightarrow> (r, emit (Invoke n ''getPublicKey'' # map (Handle n) hs) st)))"

definition getNetwork :: "store \<Rightarrow> (error + jsval) \<times> store" where
  "getNetwork st =
     (case provider (current st) of
        None \<Rightarrow> (Inl (Error ''No wallet connected''), st)
      | Some p \<Rightarrow>
          (let n = name (self p)
           in case getNetwork_m (impl p) (self p) [] of
                (r, hs) \<Rightarrow> (r, emit (Invoke n ''getNetwork'' # map (Handle n) hs) st)))"

definition switchNetwork :: "jsval list \<Rightarrow> store \<Rightarrow> (error + jsval) \<times> store" where
  "switchNetwork args st =
     (case provider (current st) of
        None \<Rightarrow> (Inl (Error ''No wallet connected''), st)
      | Some p \<Rightarrow>
          (let n = name (self p)
           in case switchNetwork_m (impl p) (self p) args of
                (r, hs) \<Rightarrow> (r, emit (Invoke n ''switchNetwork'' # map (Handle n) hs) st)))"

definition signPsbts :: "jsval list \<Rightarrow> store \<Rightarrow> (error + jsval) \<times> store" where
  "signPsbts args st =
     (case provider (current st) of
        None \<Rightarrow> (Inl (Error ''No wallet connected''), st)
      | Some p \<Rightarrow>
          (let n = name (self p)
           in case signPsbts_m (impl p) (self p) args of
                (r, hs) \<Rightarrow> (r, emit (Invoke n ''signPsbts'' # map (Handle n) hs) st)))"

definition sendInscription :: "jsval list \<Rightarrow> store \<Rightarrow> (error + jsval) \<times> store" where
  "sendInscription args st =
     (case provider (current st) of
        None \<Rightarrow> (Inl (Error ''No wallet connected''), st)
      | Some p \<Rightarrow>
          (let n = name (self p)
           in case sendInscription_m (impl p) (self p) args of
                (r, hs) \<Rightarrow> (r, emit (Invoke n ''sendInscription'' # map (Handle n) hs) st)))"

definition inscribe :: "jsval list \<Rightarrow> store \<Rightarrow> (error + jsval) \<times> store" where
  "inscribe args st =
     (case provider (current st) of
        None \<Rightarrow> (Inl (Error ''No wallet connected''), st)
      | Some p \<Rightarrow>
          (let n = name (self p)
           in case inscribe_m (impl p) (self p) args of
                (r, hs) \<Rightarrow> (r, emit (Invoke n ''inscribe'' # map (Handle n) hs) st)))"

text \<open>
  What a pass-through leaves when the guard of \<open>safeCall\<close> rejects it: the guard's
  error, and a trace that has grown by the call of the provider's method alone.
\<close>

definition unsupported :: "provider \<Rightarrow> string \<Rightarrow> store \<Rightarrow> (error + jsval) \<times> store" where
  "unsupported this path st =
     (Inl (Error (name this @ '' does not support '' @ path)), emit [Invoke (name this) path] st)"

subsection \<open>Connecting\<close>

text \<open>\<open>WALLET_INFO[walletName]?.downloadUrl\<close>\<close>

definition downloadUrl :: "string \<rightharpoonup> string" where
  "downloadUrl =
     [''UniSat'' \<mapsto> ''https://unisat.io'', ''Xverse'' \<mapsto> ''https://www.xverse.app'',
      ''OKX'' \<mapsto> ''https://www.okx.com/web3'', ''Leather'' \<mapsto> ''https://leather.io'',
      ''Phantom'' \<mapsto> ''https://phantom.app'', ''Wizz'' \<mapsto> ''https://wizzwallet.io'',
      ''MagicEden'' \<mapsto> ''https://wallet.magiceden.io'', ''Oyl'' \<mapsto> ''https://oyl.io'']"

text \<open>
  \<open>createProvider\<close>. Its first argument stands for the table \<open>PROVIDER_CLASSES\<close>: the
  instance that \<open>new PROVIDER_CLASSES[walletName]()\<close> constructs, for the names the table
  has.
\<close>

definition createProvider :: "(string \<rightharpoonup> wallet_provider) \<Rightarrow> string \<Rightarrow> error + wallet_provider" where
  "createProvider classes walletName =
     (case classes walletName of
        None \<Rightarrow> Inl (Error (''Unknown wallet: '' @ walletName))
      | Some p \<Rightarrow>
          if \<not> isInstalled_m (impl p) (self p) then
            Inl (Error (walletName @ '' wallet is not installed.'' @ [CHR 0x0A, CHR 0x0A] @
                        ''Download: '' @
                        (case downloadUrl walletName of
                           None \<Rightarrow> ''Visit wallet website'' | Some url \<Rightarrow> url)))
          else Inr p)"

text \<open>\<open>a || b\<close> on strings that may be \<open>null\<close> or \<open>undefined\<close>.\<close>

definition str_or :: "string option \<Rightarrow> string option \<Rightarrow> string option" where
  "str_or a b = (if truthy_str a then a else b)"

text \<open>
  \<open>connect\<close> suspends twice: at \<open>await provider.connect()\<close> and at
  \<open>await provider.getBalance()\<close>. Its three segments are \<open>connect_begin\<close> (up to the
  first \<open>await\<close>), \<open>connect_connected\<close> (from the settling of the handshake to the second
  \<open>await\<close>) and \<open>connect_balance\<close> (from the settling of the balance request to the end).
\<close>

definition connect_begin ::
  "(string \<rightharpoonup> wallet_provider) \<Rightarrow> string \<Rightarrow> store \<Rightarrow> error + wallet_provider \<times> store" where
  "connect_begin classes walletName st =
     (case createProvider classes walletName of
        Inl e \<Rightarrow> Inl e
      | Inr p \<Rightarrow> Inr (p, emit [Invoke (name (self p)) ''connect''] st))"

definition connect_connected ::
  "string \<Rightarrow> wallet_provider \<Rightarrow> store \<Rightarrow> (error + wallet_provider) \<times> store" where
  "connect_connected walletName p st =
     (case connect_m (impl p) (self p) of
        (Inl e, this') \<Rightarrow> (Inl e, st)
      | (Inr result, this') \<Rightarrow>
          (let p' = p\<lparr>self := this'\<rparr>
           in case setState [IsConnected True, WalletType (Some walletName),
                             Address (str_or (res_address result) (address this')),
                             PublicKey (str_or (res_publicKey result) (publicKey this')),
                             Provider (Some p')] st of
                (Inl e, st') \<Rightarrow> (Inl e, st')
              | (Inr _, st') \<Rightarrow> (Inr p', emit [Invoke (name this') ''getBalance''] st')))"

definition connect_balance :: "wallet_provider \<Rightarrow> store \<Rightarrow> (error + wallet_provider) \<times> store" where
  "connect_balance p st =
     (let n = name (self p);
          fetched =
            (case getBalance_m (impl p) (self p) of
               (Inl e, hs) \<Rightarrow> (Inl e, emit (map (Handle n) hs) st)
             | (Inr balanceData, hs) \<Rightarrow>
                 setState [Balance (Some (balanceInBTC balanceData))] (emit (map (Handle n) hs) st))
      in case fetched of
           (Inr _, st1) \<Rightarrow> (Inr p, st1)
         | (Inl balanceError, st1) \<Rightarrow>
             (case setState [Balance None] (emit [WarnNoBalance balanceError] st1) of
                (Inl e, st2) \<Rightarrow> (Inl e, st2)
              | (Inr _, st2) \<Rightarrow> (Inr p, st2)))"

text \<open>A \<open>connect\<close> that no other facade call interleaves with.\<close>

definition connect ::
  "(string \<rightharpoonup> wallet_provider) \<Rightarrow> string \<Rightarrow> store \<Rightarrow> (error + wallet_provider) \<times> store" where
  "connect classes walletName st =
     (case connect_begin classes walletName st of
        Inl e \<Rightarrow> (Inl e, st)
      | Inr (p, st1) \<Rightarrow>
          (case connect_connected walletName p st1 of
             (Inl e, st2) \<Rightarrow> (Inl e, st2)
           | (Inr p', st2) \<Rightarrow> connect_balance p' st2))"

text \<open>
  Interleaved calls of \<open>connect\<close>. Every call is a task; \<open>Call\<close> starts one and
  \<open>Settle i\<close> runs task \<open>i\<close> from the promise it waits for to its next \<open>await\<close> or to
  its end. The event loop runs one segment at a time, in the order the promises settle.
\<close>

datatype task =
    AwaitHandshake string wallet_provider
  | AwaitBalance wallet_provider
  | Resolved wallet_provider
  | Rejected error

datatype action = Call string | Settle nat

fun step :: "(string \<rightharpoonup> wallet_provider) \<Rightarrow> action \<Rightarrow> store \<times> task list \<Rightarrow> store \<times> task list" where
  "step classes (Call walletName) (st, ts) =
     (case connect_begin classes walletName st of
        Inl e \<Rightarrow> (st, ts @ [Rejected e])
      | Inr (p, st1) \<Rightarrow> (st1, ts @ [AwaitHandshake walletName p]))"
| "step classes (Settle i) (st, ts) =
     (if i < length ts then
        (case ts ! i of
           AwaitHandshake walletName p \<Rightarrow>
             (case connect_connected walletName p st of
                (Inl e, st') \<Rightarrow> (st', ts[i := Rejected e])
              | (Inr p', st') \<Rightarrow> (st', ts[i := AwaitBalance p']))
         | AwaitBalance p \<Rightarrow>
             (case connect_balance p st of
                (Inl e, st') \<Rightarrow> (st', ts[i := Rejected e])
              | (Inr p', st') \<Rightarrow> (st', ts[i := Resolved p']))
         | Resolved p \<Rightarrow> (st, ts)
         | Rejected e \<Rightarrow> (st, ts))
      else (st, ts))"

definition run ::
  "(string \<rightharpoonup> wallet_provider) \<Rightarrow> action list \<Rightarrow> store \<times> task list \<Rightarrow> store \<times> task list" where
  "run classes acts w = fold (step classes) acts w"

text \<open>A task that still waits for its wallet handshake.\<close>

fun handshake_pending :: "task \<Rightarrow> bool" where
  "handshake_pending (AwaitHandshake walletName p) = True"
| "handshake_pending t = False"

text \<open>What a segment of \<open>connect\<close> adds to the trace holds no call of \<open>disconnect\<close>.\<close>

definition no_disconnect :: "event list \<Rightarrow> bool" where
  "no_disconnect es = (\<forall>w. Invoke w ''disconnect'' \<notin> set es)"

subsection \<open>Well-behaved subscribers\<close>

text \<open>A subscriber that returns normally, whatever it writes, and a store of such.\<close>

definition never_throws :: "callback \<Rightarrow> bool" where
  "never_throws cb = (\<forall>r h. snd (cb r h) = None)"

definition quiet :: "store \<Rightarrow> bool" where
  "quiet st = list_all (\<lambda>cb. never_throws (snd cb)) (subscribers st)"

text \<open>
  A subscriber that leaves the property \<open>f\<close> of every state object as it found it, and
  a store all of whose subscribers do. With the identity for \<open>f\<close>: subscribers that
  write nothing.
\<close>

definition preserves :: "(conn_state \<Rightarrow> 'a) \<Rightarrow> callback \<Rightarrow> bool" where
  "preserves f cb = (\<forall>r h r'. f (fst (cb r h) r') = f (h r'))"

definition keeps :: "(conn_state \<Rightarrow> 'a) \<Rightarrow> store \<Rightarrow> bool" where
  "keeps f st = list_all (\<lambda>cb. preserves f (snd cb)) (subscribers st)"

subsection \<open>The canonical balance of the specification\<close>

text \<open>
  The data model of the specification, in its words: a Canonical Balance is an object
  \<open>{confirmed, unconfirmed, total}\<close> of integer satoshi amounts with
  \<open>total == confirmed + unconfirmed\<close>.
\<close>

definition is_canonical_balance :: "jsval \<Rightarrow> bool" where
  "is_canonical_balance v =
     (case v of
        JObj fs \<Rightarrow>
          (case (map_of fs ''confirmed'', map_of fs ''unconfirmed'', map_of fs ''total'') of
             (Some (JNum c), Some (JNum u), Some (JNum t)) \<Rightarrow>
               of_int \<lfloor>c\<rfloor> = c \<and> of_int \<lfloor>u\<rfloor> = u \<and> of_int \<lfloor>t\<rfloor> = t \<and> t = c + u
           | _ \<Rightarrow> False)
      | _ \<Rightarrow> False)"

section \<open>Sample data\<close>

text \<open>A handshake that succeeds with the given address.\<close>

definition resolves_with :: "string \<Rightarrow> provider \<Rightarrow> (error + connect_result) \<times> provider" where
  "resolves_with a this =
     (Inr \<lparr>res_address = Some a, res_publicKey = None\<rparr>,
      this\<lparr>isConnected := True, address := Some a\<rparr>)"

text \<open>
  The methods of the Magic Eden adapter: its own \<open>getBalance\<close> and \<open>getNetwork\<close>,
  the contract's defaults for the methods it does not override, and its token handshake
  and its \<open>signPsbt\<close> as parameters.
\<close>

definition magiceden_methods ::
  "(provider \<Rightarrow> (error + connect_result) \<times> provider) \<Rightarrow> (provider \<Rightarrow> jsval list \<Rightarrow> jsval call) \<Rightarrow> methods" where
  "magiceden_methods handshake sign_impl =
     \<lparr>isInstalled_m = isInstalled, connect_m = handshake, disconnect_m = base_disconnect,
      getBalance_m = magiceden_getBalance, pushPsbt_m = base_pushPsbt, pushTx_m = base_pushTx,
      getPublicKey_m = base_getPublicKey, getNetwork_m = magiceden_getNetwork,
      switchNetwork_m = base_switchNetwork,
      signPsbts_m = (\<lambda>this. base_signPsbts this (sign_impl this)),
      sendInscription_m = base_sendInscription, inscribe_m = base_inscribe\<rparr>"

text \<open>
  The methods of the Leather adapter, which overrides none of the methods below; its
  handshake, the contract's \<open>getBalance\<close> and its \<open>signPsbt\<close> are parameters.
\<close>

definition leather_methods ::
  "(provider \<Rightarrow> (error + connect_result) \<times> provider) \<Rightarrow> (provider \<Rightarrow> balance_data call) \<Rightarrow>
     (provider \<Rightarrow> jsval list \<Rightarrow> jsval call) \<Rightarrow> methods" where
  "leather_methods handshake balance_impl sign_impl =
     \<lparr>isInstalled_m = isInstalled, connect_m = handshake, disconnect_m = base_disconnect,
      getBalance_m = balance_impl, pushPsbt_m = base_pushPsbt, pushTx_m = base_pushTx,
      getPublicKey_m = base_getPublicKey, getNetwork_m = base_getNetwork,
      switchNetwork_m = base_switchNetwork,
      signPsbts_m = (\<lambda>this. base_signPsbts this (sign_impl this)),
      sendInscription_m = base_sendInscription, inscribe_m = base_inscribe\<rparr>"

text \<open>An injected object with no methods, and one whose \<open>disconnect\<close> rejects.\<close>

definition bare_handle :: handle where
  "bare_handle = Map.empty"

definition failing_handle :: handle where
  "failing_handle = [''disconnect'' \<mapsto> (\<lambda>_. Inl (Error ''User rejected''))]"

definition magiceden :: wallet_provider where
  "magiceden =
     \<lparr>self = MagicEdenProvider (Some bare_handle),
      impl = magiceden_methods (resolves_with ''bc1p-magiceden'')
               (\<lambda>_ _. (Inr (JStr ''signed''), [''signPsbt'']))\<rparr>"

definition leather :: wallet_provider where
  "leather =
     \<lparr>self = LeatherProvider (Some failing_handle),
      impl = leather_methods (resolves_with ''bc1q-leather'')
               (\<lambda>_. (Inr (BNum 3690), [''getBalance'']))
               (\<lambda>_ _. (Inr (JStr ''signed''), [''request'']))\<rparr>"

definition sample_classes :: "string \<rightharpoonup> wallet_provider" where
  "sample_classes = [''MagicEden'' \<mapsto> magiceden, ''Leather'' \<mapsto> leather]"

text \<open>The store after a first, undisturbed \<open>connect\<close> to each of the two wallets.\<close>

definition with_leather :: store where
  "with_leather = snd (connect sample_classes ''Leather'' initial_store)"

definition with_magiceden :: store where
  "with_magiceden = snd (connect sample_classes ''MagicEden'' initial_store)"

text \<open>
  Two subscribers: one writes to the object it is handed, the other throws.
\<close>

definition tamper :: callback where
  "tamper r h = (h(r := (h r)\<lparr>walletType := Some ''tampered''\<rparr>), None)"

definition thrower :: callback where
  "thrower r h = (h, Some (Error ''subscriber failed''))"

text \<open>A connected provider with an injected object, for the pagination examples.\<close>

definition sample_provider :: provider where
  "sample_provider =
     (OylProvider (Some bare_handle))\<lparr>isConnected := True, address := Some ''bc1p-oyl''\<rparr>"

section \<open>Properties of the balance normalizer\<close>

lemma normalize_object_total:
  "total_bal (normalize_object f w) =
     confirmed (normalize_object f w) + unconfirmed (normalize_object f w)"
  by (simp add: normalize_object_def Let_def)

lemmas normalize_defs =
  normalizeBalance_def normalize_object_def js_or_def or_num_def Let_def

text \<open>
  Claim C6, as amended. The object \<open>{confirm: 100, pending: 50}\<close> is normalized to
  \<open>{confirmed: 100, unconfirmed: 50, total: 150}\<close> when the wallet name is \<open>UniSat\<close>,
  the one branch that reads \<open>confirm\<close>. Under \<open>Xverse\<close>, which reads only
  \<open>confirmed\<close> and \<open>unconfirmed\<close>, the result is all zeros; under every other name the
  generic line reads \<open>pending\<close> but not \<open>confirm\<close>, and the result is
  \<open>{confirmed: 0, unconfirmed: 50, total: 50}\<close>.
\<close>

theorem normalizeBalance_confirm_pending:
  "normalizeBalance (BObj [''confirm'' \<mapsto> 100, ''pending'' \<mapsto> 50]) walletName =
     Inr (if walletName = ''UniSat'' then \<lparr>confirmed = 100, unconfirmed = 50, total_bal = 150\<rparr>
          else if walletName = ''Xverse'' then \<lparr>confirmed = 0, unconfirmed = 0, total_bal = 0\<rparr>
          else \<lparr>confirmed = 0, unconfirmed = 50, total_bal = 50\<rparr>)"
  by (simp add: normalize_defs)

theorem normalizeBalance_confirm_pending_witness:
  "normalizeBalance (BObj [''confirm'' \<mapsto> 100, ''pending'' \<mapsto> 50]) ''UniSat'' =
     Inr \<lparr>confirmed = 100, unconfirmed = 50, total_bal = 150\<rparr>"
  using normalizeBalance_confirm_pending [of "''UniSat''"] by simp

text \<open>
  Claim C6 as stated fails for the wallet name \<open>Xverse\<close>: the result is not
  \<open>{confirmed: 100, unconfirmed: 50, total: 150}\<close>.
\<close>

theorem normalizeBalance_confirm_pending_Xverse:
  "normalizeBalance (BObj [''confirm'' \<mapsto> 100, ''pending'' \<mapsto> 50]) ''Xverse'' \<noteq>
     Inr \<lparr>confirmed = 100, unconfirmed = 50, total_bal = 150\<rparr>"
  by (simp add: normalize_defs)

text \<open>
  Claim C7 at \<open>c = 0\<close>, \<open>u = 5\<close> and the wallet name \<open>OKX\<close>. The canonical object
  \<open>{confirmed: 0, unconfirmed: 5, total: 5}\<close> is not returned unchanged: \<open>confirmed\<close>
  is \<open>0\<close>, hence falsy, and \<open>balance.confirmed || balance.amount || balance.total\<close>
  falls through to \<open>total\<close>, so the unconfirmed amount is counted twice.
\<close>

theorem normalizeBalance_zero_confirmed:
  "normalizeBalance (BObj [''confirmed'' \<mapsto> 0, ''unconfirmed'' \<mapsto> 5, ''total'' \<mapsto> 5]) ''OKX'' =
     Inr \<lparr>confirmed = 5, unconfirmed = 5, total_bal = 10\<rparr>"
  by (simp add: normalize_defs)

text \<open>
  Where normalization is idempotent: when \<open>confirmed\<close> is positive, or \<open>unconfirmed\<close> is
  zero, or the wallet name is one of the two that read \<open>confirmed\<close> on its own.
\<close>

lemma normalizeBalance_idempotent:
  assumes "0 < c \<or> u = 0 \<or> walletName = ''Xverse'' \<or> walletName = ''UniSat''"
  shows "\<exists>r. normalizeBalance
               (BObj [''confirmed'' \<mapsto> of_nat c, ''unconfirmed'' \<mapsto> of_nat u,
                      ''total'' \<mapsto> of_nat (c + u)]) walletName = Inr r
           \<and> balance_object r =
               [''confirmed'' \<mapsto> of_nat c, ''unconfirmed'' \<mapsto> of_nat u, ''total'' \<mapsto> of_nat (c + u)]"
  using assms by (auto simp add: normalize_defs balance_object_def)

text \<open>The round trip: \<open>{confirmed: c, unconfirmed: u}\<close> is given the total \<open>c + u\<close>.\<close>

lemma normalizeBalance_round_trip:
  "normalizeBalance (BObj [''confirmed'' \<mapsto> of_nat c, ''unconfirmed'' \<mapsto> of_nat u]) walletName =
     Inr \<lparr>confirmed = of_nat c, unconfirmed = of_nat u, total_bal = of_nat c + of_nat u\<rparr>"
  by (auto simp add: normalize_defs)

section \<open>Properties of pagination\<close>

lemma pages_loop_full_step:
  assumes "pc < maxPages" "page_items (g c pageSize) = Some xs" "length xs = pageSize"
  shows "pages_loop g acc c pc reqs =
         pages_loop g (acc @ xs) (c + pageSize) (pc + 1) (reqs @ [(c, pageSize)])"
proof -
  from assms(3) have ne: "xs \<noteq> []" by (auto simp: pageSize_def)
  from assms(2) obtain result where r: "g c pageSize = Inr result" "page_of result = Inr (JArr xs)"
    by (auto simp: page_items_def split: sum.splits jsval.splits)
  show ?thesis
    by (subst pages_loop.simps) (simp add: assms(1) r ne assms(3))
qed

lemma pages_loop_short_step:
  assumes "pc < maxPages" "page_items (g c pageSize) = Some xs" "length xs < pageSize"
  shows "pages_loop g acc c pc reqs = Inr (acc @ xs, pc, reqs @ [(c, pageSize)])"
proof -
  from assms(2) obtain result where r: "g c pageSize = Inr result" "page_of result = Inr (JArr xs)"
    by (auto simp: page_items_def split: sum.splits jsval.splits)
  show ?thesis
    by (subst pages_loop.simps) (simp add: assms(1) r assms(3))
qed

lemma pages_loop_cap: "pages_loop g acc c maxPages reqs = Inr (acc, maxPages, reqs)"
  by (subst pages_loop.simps) simp

lemma pages_loop_full_run:
  assumes "p \<le> M" "M \<le> maxPages"
    and "\<And>i. p \<le> i \<Longrightarrow> i < M \<Longrightarrow>
           page_items (g (i * pageSize) pageSize) = Some (pages i) \<and> length (pages i) = pageSize"
  shows "pages_loop g acc (p * pageSize) p reqs =
         pages_loop g (acc @ concat (map pages [p..<M])) (M * pageSize) M
           (reqs @ map (\<lambda>i. (i * pageSize, pageSize)) [p..<M])"
  using assms
proof (induction M rule: dec_induct)
  case base
  then show ?case by simp
next
  case (step n)
  have "pages_loop g acc (p * pageSize) p reqs =
        pages_loop g (acc @ concat (map pages [p..<n])) (n * pageSize) n
           (reqs @ map (\<lambda>i. (i * pageSize, pageSize)) [p..<n])"
    using step by simp
  also have "\<dots> = pages_loop g ((acc @ concat (map pages [p..<n])) @ pages n) (n * pageSize + pageSize) (n + 1)
           ((reqs @ map (\<lambda>i. (i * pageSize, pageSize)) [p..<n]) @ [(n * pageSize, pageSize)])"
    using step.prems(1) step.prems(2)[of n] step.hyps(1)
    by (intro pages_loop_full_step) auto
  finally show ?case using step.hyps(1) by (simp add: add.commute)
qed

lemma length_concat_full:
  "(\<And>i. i < n \<Longrightarrow> length (pages i) = c) \<Longrightarrow> length (concat (map pages [0..<n])) = n * c"
  by (induction n) simp_all

text \<open>A source whose first \<open>maxPages\<close> pages are full is cut off at the safety limit.\<close>

lemma base_getAllInscriptions_at_cap:
  assumes inst: "walletInstance this \<noteq> None"
    and conn: "isConnected this" "truthy_str (address this)"
    and full: "\<And>i. i < maxPages \<Longrightarrow> \<exists>xs. page_items (g (i * pageSize) pageSize) = Some xs \<and> length xs = pageSize"
  shows "\<exists>r. base_getAllInscriptions this g = Inr r
           \<and> length (inscriptions r) = maxPages * pageSize
           \<and> page_requests r = map (\<lambda>i. (i * pageSize, pageSize)) [0..<maxPages]
           \<and> warnings r = [limit_warning (name this)]"
proof -
  define pages where "pages i = (SOME xs. page_items (g (i * pageSize) pageSize) = Some xs \<and> length xs = pageSize)" for i
  have pg: "page_items (g (i * pageSize) pageSize) = Some (pages i) \<and> length (pages i) = pageSize"
    if "i < maxPages" for i
    unfolding pages_def using full[OF that] by (rule someI_ex)
  have "pages_loop g [] (0 * pageSize) 0 [] =
        pages_loop g ([] @ concat (map pages [0..<maxPages])) (maxPages * pageSize) maxPages
          ([] @ map (\<lambda>i. (i * pageSize, pageSize)) [0..<maxPages])"
    using pg by (intro pages_loop_full_run) auto
  then have loop: "pages_loop g [] 0 0 [] =
      Inr (concat (map pages [0..<maxPages]), maxPages, map (\<lambda>i. (i * pageSize, pageSize)) [0..<maxPages])"
    by (simp add: pages_loop_cap)
  have len: "length (concat (map pages [0..<maxPages])) = maxPages * pageSize"
    using length_concat_full[of maxPages pages pageSize] pg by simp
  show ?thesis
    using inst conn len
    by (simp add: base_getAllInscriptions_def requireInstalled_def requireConnected_def loop)
qed

text \<open>
  Claim C8, as amended. For a connected provider whose page source returns exactly
  \<open>pageSize\<close> items on each of the first \<open>N\<close> pages and then \<open>k < pageSize\<close> items,
  and \<open>N\<close> below the safety limit \<open>maxPages\<close>, \<open>getAllInscriptions\<close> returns the
  \<open>N * pageSize + k\<close> items of these pages, in order, after exactly \<open>N + 1\<close> page
  requests, and writes no warning.
\<close>

theorem base_getAllInscriptions_pages:
  assumes inst: "walletInstance this \<noteq> None"
    and conn: "isConnected this" "truthy_str (address this)"
    and N: "N < maxPages" and k: "k < pageSize"
    and full: "\<And>i. i < N \<Longrightarrow>
           page_items (g (i * pageSize) pageSize) = Some (pages i) \<and> length (pages i) = pageSize"
    and last: "page_items (g (N * pageSize) pageSize) = Some (pages N)" "length (pages N) = k"
  shows "\<exists>r. base_getAllInscriptions this g = Inr r
           \<and> inscriptions r = concat (map pages [0..<Suc N])
           \<and> length (inscriptions r) = N * pageSize + k
           \<and> page_requests r = map (\<lambda>i. (i * pageSize, pageSize)) [0..<Suc N]
           \<and> length (page_requests r) = N + 1
           \<and> warnings r = []"
proof -
  have "pages_loop g [] (0 * pageSize) 0 [] =
        pages_loop g ([] @ concat (map pages [0..<N])) (N * pageSize) N
          ([] @ map (\<lambda>i. (i * pageSize, pageSize)) [0..<N])"
    using N full by (intro pages_loop_full_run) auto
  also have "\<dots> = Inr (([] @ concat (map pages [0..<N])) @ pages N, N,
          ([] @ map (\<lambda>i. (i * pageSize, pageSize)) [0..<N]) @ [(N * pageSize, pageSize)])"
    using N last k by (intro pages_loop_short_step) auto
  finally have loop: "pages_loop g [] 0 0 [] =
      Inr (concat (map pages [0..<Suc N]), N, map (\<lambda>i. (i * pageSize, pageSize)) [0..<Suc N])"
    by simp
  have len: "length (concat (map pages [0..<Suc N])) = N * pageSize + k"
    using length_concat_full[of N pages pageSize] full last by simp
  show ?thesis
    using inst conn N len
    by (simp add: base_getAllInscriptions_def requireInstalled_def requireConnected_def loop)
qed

theorem base_getAllInscriptions_pages_witness:
  "\<exists>r. base_getAllInscriptions sample_provider (page_source 2 3) = Inr r
           \<and> length (inscriptions r) = 2 * pageSize + 3
           \<and> length (page_requests r) = 2 + 1
           \<and> warnings r = []"
  using base_getAllInscriptions_pages[of sample_provider 2 3 "page_source 2 3"
          "\<lambda>i. replicate (if i < 2 then pageSize else 3) JNull"]
  by (auto simp add: sample_provider_def OylProvider_def truthy_str_def maxPages_def pageSize_def page_source_def
      page_items_def page_of_def)

text \<open>
  Claim C8 as stated fails at \<open>N = 100\<close> and \<open>k = 1\<close>: the loop stops at the safety
  limit after \<open>100\<close> requests with \<open>10000\<close> items, not after \<open>101\<close> requests with
  \<open>10001\<close>.
\<close>

theorem base_getAllInscriptions_beyond_cap:
  "items_and_requests (base_getAllInscriptions sample_provider (page_source 100 1)) = Some (10000, 100) \<and>
   items_and_requests (base_getAllInscriptions sample_provider (page_source 100 1)) \<noteq> Some (100 * pageSize + 1, 100 + 1)"
  using base_getAllInscriptions_at_cap [of sample_provider "page_source 100 1"]
  by (auto simp add: items_and_requests_def sample_provider_def OylProvider_def truthy_str_def
      pageSize_def maxPages_def page_source_def page_items_def page_of_def)

text \<open>
  Claim C9. For a connected provider whose page source returns a full page on every page
  request, \<open>getAllInscriptions\<close> resolves: it stops after \<open>maxPages\<close> page requests,
  writes the warning of the safety limit, and returns the items of the \<open>maxPages\<close> pages
  it has been given, in order: \<open>maxPages * pageSize\<close> items, a non-empty list.
\<close>

theorem base_getAllInscriptions_cap:
  assumes inst: "walletInstance this \<noteq> None"
    and conn: "isConnected this" "truthy_str (address this)"
    and full: "\<And>i. page_items (g (i * pageSize) pageSize) = Some (pages i)
                   \<and> length (pages i) = pageSize"
  shows "base_getAllInscriptions this g =
           Inr \<lparr>inscriptions = concat (map pages [0..<maxPages]),
                page_requests = map (\<lambda>i. (i * pageSize, pageSize)) [0..<maxPages],
                warnings = [limit_warning (name this)]\<rparr>
         \<and> length (concat (map pages [0..<maxPages])) = maxPages * pageSize
         \<and> concat (map pages [0..<maxPages]) \<noteq> []
         \<and> length (map (\<lambda>i. (i * pageSize, pageSize)) [0..<maxPages]) = maxPages"
proof -
  have "pages_loop g [] (0 * pageSize) 0 [] =
        pages_loop g ([] @ concat (map pages [0..<maxPages])) (maxPages * pageSize) maxPages
          ([] @ map (\<lambda>i. (i * pageSize, pageSize)) [0..<maxPages])"
    using full by (intro pages_loop_full_run) auto
  then have loop: "pages_loop g [] 0 0 [] =
      Inr (concat (map pages [0..<maxPages]), maxPages,
           map (\<lambda>i. (i * pageSize, pageSize)) [0..<maxPages])"
    by (simp add: pages_loop_cap)
  have len: "length (concat (map pages [0..<maxPages])) = maxPages * pageSize"
    using length_concat_full [of maxPages pages pageSize] full by simp
  then have "0 < length (concat (map pages [0..<maxPages]))"
    by (simp add: maxPages_def pageSize_def)
  then have ne: "concat (map pages [0..<maxPages]) \<noteq> []"
    by (metis length_greater_0_conv)
  show ?thesis
    using inst conn len ne
    by (simp add: base_getAllInscriptions_def requireInstalled_def requireConnected_def loop)
qed

theorem base_getAllInscriptions_cap_witness:
  "base_getAllInscriptions sample_provider (page_source 1 100) =
     Inr \<lparr>inscriptions = concat (map (\<lambda>i. replicate 100 JNull) [0..<maxPages]),
          page_requests = map (\<lambda>i. (i * pageSize, pageSize)) [0..<maxPages],
          warnings = [limit_warning ''Oyl'']\<rparr>
   \<and> length (concat (map (\<lambda>i. replicate 100 JNull) [0..<maxPages])) = maxPages * pageSize"
  using base_getAllInscriptions_cap [of sample_provider "page_source 1 100" "\<lambda>i. replicate 100 JNull"]
  by (simp add: sample_provider_def OylProvider_def truthy_str_def pageSize_def
      page_source_def page_items_def page_of_def)

section \<open>Properties of the connection-state store\<close>

lemma forEach_never_throws:
  "list_all never_throws cbs \<Longrightarrow> fst (forEach cbs st) = Inr ()"
proof (induction cbs arbitrary: st)
  case Nil
  then show ?case by simp
next
  case (Cons cb cbs)
  then have "snd (cb (currentState st) (heap st)) = None"
    by (simp add: never_throws_def)
  then obtain h where "cb (currentState st) (heap st) = (h, None)"
    by (cases "cb (currentState st) (heap st)") simp
  with Cons show ?case by simp
qed

lemma forEach_frame:
  "subscribers (snd (forEach cbs st)) = subscribers st
   \<and> trace (snd (forEach cbs st)) = trace st
   \<and> currentState (snd (forEach cbs st)) = currentState st
   \<and> fresh (snd (forEach cbs st)) = fresh st"
  by (induction cbs arbitrary: st) (auto split: prod.splits option.splits)

lemma setState_quiet:
  assumes "quiet st"
  shows "fst (setState newState st) = Inr ()"
proof -
  from assms have "list_all never_throws (map snd (subscribers st))"
    by (simp add: quiet_def list_all_iff)
  then show ?thesis
    by (simp add: setState_def Let_def forEach_never_throws)
qed

lemma setState_frame:
  "subscribers (snd (setState newState st)) = subscribers st
   \<and> trace (snd (setState newState st)) = trace st"
  by (simp add: setState_def Let_def forEach_frame)

lemma emit_frame [simp]:
  "subscribers (emit es st) = subscribers st" "heap (emit es st) = heap st"
  "currentState (emit es st) = currentState st" "fresh (emit es st) = fresh st"
  "current (emit es st) = current st" "trace (emit es st) = trace st @ es"
  "quiet (emit es st) = quiet st" "keeps f (emit es st) = keeps f st"
  by (simp_all add: emit_def current_def quiet_def keeps_def)

lemma spread_disconnected:
  "spread s [IsConnected False, WalletType None, Address None, PublicKey None,
             Balance None, Provider None] = disconnected"
  by (simp add: spread_def disconnected_def)

text \<open>
  What \<open>forEach\<close> does to the heap: when no callback throws, every callback has run, in
  order, on the reference \<open>currentState\<close>; and a property that every callback leaves
  alone is left alone.
\<close>

lemma forEach_heap:
  "list_all never_throws cbs \<Longrightarrow>
   forEach cbs st =
     (Inr (), st\<lparr>heap := fold (\<lambda>cb h. fst (cb (currentState st) h)) cbs (heap st)\<rparr>)"
proof (induction cbs arbitrary: st)
  case Nil
  then show ?case by simp
next
  case (Cons cb cbs)
  then have "snd (cb (currentState st) (heap st)) = None"
    by (simp add: never_throws_def)
  then obtain h where h: "cb (currentState st) (heap st) = (h, None)"
    by (cases "cb (currentState st) (heap st)") simp
  with Cons show ?case by simp
qed

lemma forEach_preserves:
  "list_all (preserves f) cbs \<Longrightarrow> f (heap (snd (forEach cbs st)) r) = f (heap st r)"
proof (induction cbs arbitrary: st)
  case Nil
  then show ?case by simp
next
  case (Cons cb cbs)
  then have p: "f (fst (cb (currentState st) (heap st)) r) = f (heap st r)"
    by (simp add: preserves_def)
  obtain h e where c: "cb (currentState st) (heap st) = (h, e)"
    by (cases "cb (currentState st) (heap st)")
  show ?case
  proof (cases e)
    case None
    with c p Cons show ?thesis by simp
  next
    case (Some x)
    with c p show ?thesis by simp
  qed
qed

lemma setState_keeps:
  assumes "keeps f st"
  shows "f (current (snd (setState newState st))) = f (spread (current st) newState)"
proof -
  from assms have "list_all (preserves f) (map snd (subscribers st))"
    by (simp add: keeps_def list_all_iff)
  then show ?thesis
    by (simp add: setState_def Let_def current_def forEach_frame forEach_preserves)
qed

lemma setState_heap:
  assumes "quiet st"
  shows "setState newState st =
     (Inr (), st\<lparr>heap := fold (\<lambda>cb h. fst (cb (fresh st) h)) (map snd (subscribers st))
                           ((heap st)(fresh st := spread (current st) newState)),
                 currentState := fresh st, fresh := Suc (fresh st)\<rparr>)"
proof -
  from assms have "list_all never_throws (map snd (subscribers st))"
    by (simp add: quiet_def list_all_iff)
  then show ?thesis
    by (simp add: setState_def Let_def forEach_heap)
qed

lemma setState_invariants [simp]:
  "subscribers (snd (setState newState st)) = subscribers st"
  "trace (snd (setState newState st)) = trace st"
  "keeps f (snd (setState newState st)) = keeps f st"
  "quiet (snd (setState newState st)) = quiet st"
  by (simp_all add: setState_frame keeps_def quiet_def)

lemma keeps_update [simp]:
  "keeps f (st\<lparr>heap := h\<rparr>) = keeps f st" "quiet (st\<lparr>heap := h\<rparr>) = quiet st"
  by (simp_all add: keeps_def quiet_def)

text \<open>The sample stores, evaluated.\<close>

lemmas sample_defs =
  sample_classes_def leather_def magiceden_def leather_methods_def magiceden_methods_def
  LeatherProvider_def MagicEdenProvider_def resolves_with_def isInstalled_def
  bare_handle_def failing_handle_def initial_store_def disconnected_def

lemmas facade_defs =
  connect_def connect_begin_def connect_connected_def connect_balance_def createProvider_def
  setState_def emit_def current_def spread_def str_or_def truthy_str_def Let_def
  balanceInBTC_def

lemma with_leather_provider:
  "provider (current with_leather) =
     Some (leather\<lparr>self := (self leather)\<lparr>isConnected := True, address := Some ''bc1q-leather''\<rparr>\<rparr>)"
  by (simp add: with_leather_def sample_defs facade_defs)

lemma with_leather_subscribers: "subscribers with_leather = []"
  by (simp add: with_leather_def sample_defs facade_defs)


lemma with_magiceden_provider:
  "provider (current with_magiceden) =
     Some (magiceden\<lparr>self := (self magiceden)\<lparr>isConnected := True, address := Some ''bc1p-magiceden''\<rparr>\<rparr>)"
  by (simp add: with_magiceden_def sample_defs facade_defs magiceden_getBalance_def requireConnected_def)

lemma with_magiceden_subscribers: "subscribers with_magiceden = []"
  by (simp add: with_magiceden_def sample_defs facade_defs magiceden_getBalance_def requireConnected_def)

text \<open>
  Claim C4 at a store with one subscriber that writes \<open>walletType\<close> on the object it is
  handed. \<open>setState\<close> passes \<open>currentState\<close> itself, not a copy: after a state change
  that assigns only \<open>balance\<close>, the store's own object carries the subscriber's
  \<open>walletType\<close>.
\<close>

theorem setState_subscriber_writes:
  "walletType (current initial_store) = None \<and>
   walletType (current (snd (setState [Balance None] (subscribe (0, tamper) initial_store)))) =
     Some ''tampered''"
  by (simp add: setState_def subscribe_def initial_store_def current_def tamper_def Let_def
      spread_def disconnected_def)

text \<open>
  \<open>getState\<close>, by contrast, hands out a new object: writing through the reference it
  returns cannot reach the store's.
\<close>

lemma getState_copy:
  assumes "currentState st < fresh st"
  shows "fst (getState st) \<noteq> currentState (snd (getState st))
       \<and> heap (snd (getState st)) (fst (getState st)) = current st
       \<and> current (snd (getState st)) = current st"
  using assms by (simp add: getState_def Let_def current_def)

section \<open>Properties of disconnect\<close>

text \<open>
  Claim C10, as amended. \<open>disconnect\<close> invokes the active provider's \<open>disconnect\<close>,
  when there is a provider, and catches what it throws: a rejection is written to the
  console as a warning and nothing else comes of it. When no subscriber throws,
  \<open>disconnect\<close> resolves, after it has replaced the state object by the disconnected
  snapshot and called every subscriber, in the order of subscription, with that object.
  The disconnected snapshot is the state the store is left in when no subscriber writes.
\<close>

theorem disconnect_resolves:
  "trace (snd (disconnect st)) =
     trace st @
     (case provider (current st) of
        None \<Rightarrow> []
      | Some p \<Rightarrow>
          Invoke (name (self p)) ''disconnect'' #
          map (Handle (name (self p))) (snd (disconnect_m (impl p) (self p))) @
          (case fst (disconnect_m (impl p) (self p)) of
             Inl e \<Rightarrow> [WarnDisconnectFailed e]
           | Inr _ \<Rightarrow> []))
   \<and> (quiet st \<longrightarrow>
         fst (disconnect st) = Inr ()
         \<and> currentState (snd (disconnect st)) = fresh st
         \<and> heap (snd (disconnect st)) =
             fold (\<lambda>cb h. fst (cb (fresh st) h)) (map snd (subscribers st))
               ((heap st)(fresh st := disconnected)))
   \<and> (keeps (\<lambda>s. s) st \<longrightarrow> current (snd (disconnect st)) = disconnected)"
proof -
  define es where "es =
     (case provider (current st) of
        None \<Rightarrow> []
      | Some p \<Rightarrow>
          Invoke (name (self p)) ''disconnect'' #
          map (Handle (name (self p))) (snd (disconnect_m (impl p) (self p))) @
          (case fst (disconnect_m (impl p) (self p)) of
             Inl e \<Rightarrow> [WarnDisconnectFailed e]
           | Inr _ \<Rightarrow> []))"
  have d: "disconnect st =
      setState [IsConnected False, WalletType None, Address None, PublicKey None,
                Balance None, Provider None] (emit es st)"
    by (auto simp add: disconnect_def es_def Let_def emit_def split: option.splits prod.splits sum.splits)
  have 1: "trace (snd (disconnect st)) = trace st @ es"
    by (simp add: d)
  have 2: "fst (disconnect st) = Inr ()
         \<and> currentState (snd (disconnect st)) = fresh st
         \<and> heap (snd (disconnect st)) =
             fold (\<lambda>cb h. fst (cb (fresh st) h)) (map snd (subscribers st))
               ((heap st)(fresh st := disconnected))" if "quiet st"
    using that by (simp add: d setState_heap spread_disconnected)
  have 3: "current (snd (disconnect st)) = disconnected" if "keeps (\<lambda>s. s) st"
    using that setState_keeps [of "\<lambda>s. s" "emit es st"]
    by (simp add: d spread_disconnected)
  from 1 2 3 show ?thesis unfolding es_def by blast
qed

theorem disconnect_resolves_witness:
  "fst (disconnect with_leather) = Inr ()
   \<and> current (snd (disconnect with_leather)) = disconnected
   \<and> trace (snd (disconnect with_leather)) =
       trace with_leather @
       [Invoke ''Leather'' ''disconnect'', Handle ''Leather'' ''disconnect'',
        WarnDisconnectFailed (Error ''User rejected'')]
   \<and> fst (disconnect (subscribe (0, tamper) with_leather)) = Inr ()
   \<and> walletType (current (snd (disconnect (subscribe (0, tamper) with_leather)))) = Some ''tampered''"
  using disconnect_resolves [of with_leather]
        disconnect_resolves [of "subscribe (0, tamper) with_leather"]
  by (simp add: quiet_def keeps_def with_leather_subscribers
      with_leather_provider [unfolded current_def]
      leather_def leather_methods_def LeatherProvider_def base_disconnect_def handle_method_def
      failing_handle_def subscribe_def never_throws_def tamper_def current_def)

text \<open>
  Claim C10 as stated fails at a store with a subscriber that throws: the exception leaves
  \<open>setState\<close> through \<open>forEach\<close>, and \<open>disconnect\<close> rejects with it.
\<close>

theorem disconnect_subscriber_throws:
  "fst (disconnect (subscribe (0, thrower) initial_store)) = Inl (Error ''subscriber failed'')"
  by (simp add: disconnect_def setState_def subscribe_def initial_store_def current_def thrower_def
      Let_def disconnected_def)

section \<open>Properties of getBalance\<close>

text \<open>
  Claim C5, as amended. Let \<open>getBalance\<close> be called while a provider is active whose
  \<open>getBalance\<close> resolves. When no subscriber throws, it resolves to a bare number, the
  balance in BTC: a number strictly between \<open>0\<close> and \<open>1\<close> as it is, any other number
  divided by \<open>100000000\<close>, for an object \<open>(total || confirmed || 0) / 100000000\<close>, and
  \<open>0\<close> otherwise. This number is no Canonical Balance object. It is the \<open>balance\<close>
  of the state afterwards when no subscriber writes \<open>balance\<close>.
\<close>

theorem getBalance_returns_number:
  assumes "provider (current st) = Some p"
    and "getBalance_m (impl p) (self p) = (Inr balanceData, hs)"
  shows "(quiet st \<longrightarrow> fst (getBalance st) = Inr (JNum (balanceInBTC balanceData)))
         \<and> \<not> is_canonical_balance (JNum (balanceInBTC balanceData))
         \<and> (keeps balance st \<longrightarrow>
              balance (current (snd (getBalance st))) = Some (balanceInBTC balanceData))"
proof -
  let ?st1 = "emit (Invoke (name (self p)) ''getBalance'' # map (Handle (name (self p))) hs) st"
  let ?set = "setState [Balance (Some (balanceInBTC balanceData))] ?st1"
  have s: "snd (getBalance st) = snd ?set"
    using assms by (simp add: getBalance_def Let_def split: prod.splits sum.splits)
  have r: "fst (getBalance st) = Inr (JNum (balanceInBTC balanceData))" if "quiet st"
  proof -
    from that have "fst ?set = Inr ()" by (simp add: setState_quiet)
    then obtain st' where "?set = (Inr (), st')" by (cases ?set) auto
    then show ?thesis using assms by (simp add: getBalance_def Let_def)
  qed
  have b: "balance (current (snd (getBalance st))) = Some (balanceInBTC balanceData)"
    if "keeps balance st"
    using that by (simp add: s setState_keeps spread_def)
  from r b show ?thesis by (simp add: is_canonical_balance_def)
qed

theorem getBalance_returns_number_witness:
  "fst (getBalance with_leather) = Inr (JNum (3690 / 100000000))
   \<and> balance (current (snd (getBalance with_leather))) = Some (3690 / 100000000)"
  using getBalance_returns_number [of with_leather _ "BNum 3690" "[''getBalance'']"]
  by (simp add: with_leather_provider with_leather_subscribers quiet_def keeps_def
      leather_def leather_methods_def balanceInBTC_def)

text \<open>
  Claim C5 as stated fails with the Magic Eden adapter active: its \<open>getBalance\<close>
  resolves to the canonical object of zeros, and the facade resolves to the number \<open>0\<close>.
\<close>

theorem getBalance_not_canonical:
  "fst (getBalance with_magiceden) = Inr (JNum 0) \<and> \<not> is_canonical_balance (JNum 0)"
  by (simp add: getBalance_def with_magiceden_provider Let_def magiceden_def magiceden_methods_def
      magiceden_getBalance_def requireConnected_def MagicEdenProvider_def truthy_str_def
      setState_def with_magiceden_subscribers balanceInBTC_def js_or_def or_num_def
      is_canonical_balance_def)

section \<open>Properties of the capability guard\<close>

text \<open>
  Claim C2 as stated fails for Magic Eden and the path \<open>getBalance\<close>, which its
  descriptor declares \<open>false\<close>: the facade's \<open>getBalance\<close> resolves, since neither the
  facade nor the adapter's \<open>getBalance\<close> consults the descriptor.
\<close>

theorem getBalance_unguarded:
  "(case provider (current with_magiceden) of
      None \<Rightarrow> False
    | Some p \<Rightarrow> name (self p) = ''MagicEden'' \<and> \<not> supportsMethod (self p) ''getBalance'')
   \<and> fst (getBalance with_magiceden) = Inr (JNum 0)"
  by (simp add: getBalance_def with_magiceden_provider Let_def magiceden_def magiceden_methods_def
      magiceden_getBalance_def requireConnected_def MagicEdenProvider_def truthy_str_def
      setState_def with_magiceden_subscribers balanceInBTC_def js_or_def or_num_def
      supportsMethod_def magiceden_features_def no_protocols_def)

lemmas guard_defs =
  requireInstalled_def requireConnected_def safeCall_def truthy_str_def

lemma base_getPublicKey_unsupported:
  assumes "\<not> supportsMethod this ''getPublicKey''"
  shows "snd (base_getPublicKey this args) = [] \<and> (\<exists>e. fst (base_getPublicKey this args) = Inl e)"
    and "walletInstance this \<noteq> None \<Longrightarrow> isConnected this \<Longrightarrow> truthy_str (address this) \<Longrightarrow>
         base_getPublicKey this args = (Inl (Error (name this @ '' does not support getPublicKey'')), [])"
  using assms by (auto simp add: base_getPublicKey_def guard_defs)

lemma base_getNetwork_unsupported:
  assumes "\<not> supportsMethod this ''getNetwork''"
  shows "snd (base_getNetwork this args) = [] \<and> (\<exists>e. fst (base_getNetwork this args) = Inl e)"
    and "walletInstance this \<noteq> None \<Longrightarrow>
         base_getNetwork this args = (Inl (Error (name this @ '' does not support getNetwork'')), [])"
  using assms by (auto simp add: base_getNetwork_def guard_defs)

lemma base_switchNetwork_unsupported:
  assumes "\<not> supportsMethod this ''switchNetwork''"
  shows "snd (base_switchNetwork this args) = [] \<and> (\<exists>e. fst (base_switchNetwork this args) = Inl e)"
    and "walletInstance this \<noteq> None \<Longrightarrow>
         base_switchNetwork this args = (Inl (Error (name this @ '' does not support switchNetwork'')), [])"
  using assms by (auto simp add: base_switchNetwork_def guard_defs)

lemma base_signPsbts_unsupported:
  assumes "\<not> supportsMethod this ''signPsbts''"
  shows "snd (base_signPsbts this sp args) = [] \<and> (\<exists>e. fst (base_signPsbts this sp args) = Inl e)"
    and "walletInstance this \<noteq> None \<Longrightarrow> isConnected this \<Longrightarrow> truthy_str (address this) \<Longrightarrow>
         base_signPsbts this sp args = (Inl (Error (name this @ '' does not support signPsbts'')), [])"
  using assms by (auto simp add: base_signPsbts_def guard_defs)

lemma base_pushPsbt_unsupported:
  assumes "\<not> supportsMethod this ''pushPsbt''"
  shows "snd (base_pushPsbt this args) = [] \<and> (\<exists>e. fst (base_pushPsbt this args) = Inl e)"
    and "walletInstance this \<noteq> None \<Longrightarrow> isConnected this \<Longrightarrow> truthy_str (address this) \<Longrightarrow>
         base_pushPsbt this args = (Inl (Error (name this @ '' does not support pushPsbt'')), [])"
  using assms by (auto simp add: base_pushPsbt_def guard_defs)

lemma base_pushTx_unsupported:
  assumes "\<not> supportsMethod this ''pushTx''"
  shows "snd (base_pushTx this args) = [] \<and> (\<exists>e. fst (base_pushTx this args) = Inl e)"
    and "walletInstance this \<noteq> None \<Longrightarrow> isConnected this \<Longrightarrow> truthy_str (address this) \<Longrightarrow>
         base_pushTx this args = (Inl (Error (name this @ '' does not support pushTx'')), [])"
  using assms by (auto simp add: base_pushTx_def guard_defs)

lemma base_sendInscription_unsupported:
  assumes "\<not> supportsMethod this ''sendInscription''"
  shows "snd (base_sendInscription this args) = [] \<and> (\<exists>e. fst (base_sendInscription this args) = Inl e)"
    and "walletInstance this \<noteq> None \<Longrightarrow> isConnected this \<Longrightarrow> truthy_str (address this) \<Longrightarrow>
         base_sendInscription this args = (Inl (Error (name this @ '' does not support sendInscription'')), [])"
  using assms by (auto simp add: base_sendInscription_def guard_defs)

lemma base_inscribe_unsupported:
  assumes "\<not> supportsMethod this ''inscribe''"
  shows "snd (base_inscribe this args) = [] \<and> (\<exists>e. fst (base_inscribe this args) = Inl e)"
    and "walletInstance this \<noteq> None \<Longrightarrow> isConnected this \<Longrightarrow> truthy_str (address this) \<Longrightarrow>
         base_inscribe this args = (Inl (Error (name this @ '' does not support inscribe'')), [])"
  using assms by (auto simp add: base_inscribe_def guard_defs)

text \<open>A pass-through whose provider call fails without reaching the injected object.\<close>

lemma no_handle:
  assumes "snd c = [] \<and> (\<exists>e. fst c = Inl e)"
  shows "\<exists>e. (case c of (r, hs) \<Rightarrow> (r, emit (Invoke n m # map (Handle n) hs) st)) =
              (Inl e, emit [Invoke n m] st)"
  using assms by (cases c) auto

text \<open>
  Claim C2, as amended. Let a provider be active, and let the operation be one of
  \<open>getPublicKey\<close>, \<open>getNetwork\<close>, \<open>switchNetwork\<close>, \<open>signPsbts\<close>,
  \<open>pushPsbt\<close>, \<open>pushTx\<close>, \<open>sendInscription\<close> and \<open>inscribe\<close>, for which the
  provider inherits the contract's default, and whose path its descriptor does not resolve
  to \<open>true\<close>. Then the facade operation rejects and no method of the injected wallet
  object is invoked: the trace grows by the call of the provider's method alone. The error
  is \<open><name> does not support <path>\<close> when the provider is installed and, for all but
  \<open>getNetwork\<close> and \<open>switchNetwork\<close>, connected.
\<close>

theorem unsupported_operation_rejected:
  assumes active: "provider (current st) = Some p"
  shows "(getPublicKey_m (impl p) = base_getPublicKey \<and> \<not> supportsMethod (self p) ''getPublicKey'' \<longrightarrow>
            (\<exists>e. getPublicKey st = (Inl e, emit [Invoke (name (self p)) ''getPublicKey''] st))
          \<and> (walletInstance (self p) \<noteq> None \<and> isConnected (self p) \<and> truthy_str (address (self p)) \<longrightarrow>
               getPublicKey st = unsupported (self p) ''getPublicKey'' st))
       \<and> (getNetwork_m (impl p) = base_getNetwork \<and> \<not> supportsMethod (self p) ''getNetwork'' \<longrightarrow>
            (\<exists>e. getNetwork st = (Inl e, emit [Invoke (name (self p)) ''getNetwork''] st))
          \<and> (walletInstance (self p) \<noteq> None \<longrightarrow>
               getNetwork st = unsupported (self p) ''getNetwork'' st))
       \<and> (switchNetwork_m (impl p) = base_switchNetwork \<and> \<not> supportsMethod (self p) ''switchNetwork'' \<longrightarrow>
            (\<exists>e. switchNetwork args st = (Inl e, emit [Invoke (name (self p)) ''switchNetwork''] st))
          \<and> (walletInstance (self p) \<noteq> None \<longrightarrow>
               switchNetwork args st = unsupported (self p) ''switchNetwork'' st))
       \<and> (signPsbts_m (impl p) = (\<lambda>this. base_signPsbts this (signPsbt this))
            \<and> \<not> supportsMethod (self p) ''signPsbts'' \<longrightarrow>
            (\<exists>e. signPsbts args st = (Inl e, emit [Invoke (name (self p)) ''signPsbts''] st))
          \<and> (walletInstance (self p) \<noteq> None \<and> isConnected (self p) \<and> truthy_str (address (self p)) \<longrightarrow>
               signPsbts args st = unsupported (self p) ''signPsbts'' st))
       \<and> (pushPsbt_m (impl p) = base_pushPsbt \<and> \<not> supportsMethod (self p) ''pushPsbt'' \<longrightarrow>
            (\<exists>e. pushPsbt args st = (Inl e, emit [Invoke (name (self p)) ''pushPsbt''] st))
          \<and> (walletInstance (self p) \<noteq> None \<and> isConnected (self p) \<and> truthy_str (address (self p)) \<longrightarrow>
               pushPsbt args st = unsupported (self p) ''pushPsbt'' st))
       \<and> (pushTx_m (impl p) = base_pushTx \<and> \<not> supportsMethod (self p) ''pushTx'' \<longrightarrow>
            (\<exists>e. pushTx args st = (Inl e, emit [Invoke (name (self p)) ''pushTx''] st))
          \<and> (walletInstance (self p) \<noteq> None \<and> isConnected (self p) \<and> truthy_str (address (self p)) \<longrightarrow>
               pushTx args st = unsupported (self p) ''pushTx'' st))
       \<and> (sendInscription_m (impl p) = base_sendInscription \<and> \<not> supportsMethod (self p) ''sendInscription'' \<longrightarrow>
            (\<exists>e. sendInscription args st = (Inl e, emit [Invoke (name (self p)) ''sendInscription''] st))
          \<and> (walletInstance (self p) \<noteq> None \<and> isConnected (self p) \<and> truthy_str (address (self p)) \<longrightarrow>
               sendInscription args st = unsupported (self p) ''sendInscription'' st))
       \<and> (inscribe_m (impl p) = base_inscribe \<and> \<not> supportsMethod (self p) ''inscribe'' \<longrightarrow>
            (\<exists>e. inscribe args st = (Inl e, emit [Invoke (name (self p)) ''inscribe''] st))
          \<and> (walletInstance (self p) \<noteq> None \<and> isConnected (self p) \<and> truthy_str (address (self p)) \<longrightarrow>
               inscribe args st = unsupported (self p) ''inscribe'' st))"
proof (intro conjI impI; elim conjE)
  show "\<exists>e. getPublicKey st = (Inl e, emit [Invoke (name (self p)) ''getPublicKey''] st)"
    if "getPublicKey_m (impl p) = base_getPublicKey" "\<not> supportsMethod (self p) ''getPublicKey''"
    using that active no_handle [OF base_getPublicKey_unsupported(1) [OF that(2)]]
    by (simp add: getPublicKey_def Let_def)
  show "\<exists>e. getNetwork st = (Inl e, emit [Invoke (name (self p)) ''getNetwork''] st)"
    if "getNetwork_m (impl p) = base_getNetwork" "\<not> supportsMethod (self p) ''getNetwork''"
    using that active no_handle [OF base_getNetwork_unsupported(1) [OF that(2)]]
    by (simp add: getNetwork_def Let_def)
  show "\<exists>e. switchNetwork args st = (Inl e, emit [Invoke (name (self p)) ''switchNetwork''] st)"
    if "switchNetwork_m (impl p) = base_switchNetwork" "\<not> supportsMethod (self p) ''switchNetwork''"
    using that active no_handle [OF base_switchNetwork_unsupported(1) [OF that(2)]]
    by (simp add: switchNetwork_def Let_def)
  show "\<exists>e. signPsbts args st = (Inl e, emit [Invoke (name (self p)) ''signPsbts''] st)"
    if "signPsbts_m (impl p) = (\<lambda>this. base_signPsbts this (signPsbt this))"
       "\<not> supportsMethod (self p) ''signPsbts''"
    using that active no_handle [OF base_signPsbts_unsupported(1) [OF that(2)]]
    by (simp add: signPsbts_def Let_def)
  show "\<exists>e. pushPsbt args st = (Inl e, emit [Invoke (name (self p)) ''pushPsbt''] st)"
    if "pushPsbt_m (impl p) = base_pushPsbt" "\<not> supportsMethod (self p) ''pushPsbt''"
    using that active no_handle [OF base_pushPsbt_unsupported(1) [OF that(2)]]
    by (simp add: pushPsbt_def Let_def)
  show "\<exists>e. pushTx args st = (Inl e, emit [Invoke (name (self p)) ''pushTx''] st)"
    if "pushTx_m (impl p) = base_pushTx" "\<not> supportsMethod (self p) ''pushTx''"
    using that active no_handle [OF base_pushTx_unsupported(1) [OF that(2)]]
    by (simp add: pushTx_def Let_def)
  show "\<exists>e. sendInscription args st = (Inl e, emit [Invoke (name (self p)) ''sendInscription''] st)"
    if "sendInscription_m (impl p) = base_sendInscription" "\<not> supportsMethod (self p) ''sendInscription''"
    using that active no_handle [OF base_sendInscription_unsupported(1) [OF that(2)]]
    by (simp add: sendInscription_def Let_def)
  show "\<exists>e. inscribe args st = (Inl e, emit [Invoke (name (self p)) ''inscribe''] st)"
    if "inscribe_m (impl p) = base_inscribe" "\<not> supportsMethod (self p) ''inscribe''"
    using that active no_handle [OF base_inscribe_unsupported(1) [OF that(2)]]
    by (simp add: inscribe_def Let_def)
qed (simp_all add: active unsupported_def Let_def
      getPublicKey_def getNetwork_def switchNetwork_def signPsbts_def pushPsbt_def pushTx_def
      sendInscription_def inscribe_def
      base_getPublicKey_unsupported(2) base_getNetwork_unsupported(2)
      base_switchNetwork_unsupported(2) base_signPsbts_unsupported(2)
      base_pushPsbt_unsupported(2) base_pushTx_unsupported(2)
      base_sendInscription_unsupported(2) base_inscribe_unsupported(2))

theorem unsupported_operation_rejected_witness:
  "getPublicKey with_leather =
     (Inl (Error ''Leather does not support getPublicKey''),
      emit [Invoke ''Leather'' ''getPublicKey''] with_leather)
   \<and> getNetwork with_leather =
     (Inl (Error ''Leather does not support getNetwork''),
      emit [Invoke ''Leather'' ''getNetwork''] with_leather)
   \<and> switchNetwork [JStr ''testnet''] with_leather =
     (Inl (Error ''Leather does not support switchNetwork''),
      emit [Invoke ''Leather'' ''switchNetwork''] with_leather)
   \<and> signPsbts [JArr [JStr ''70736274'']] with_leather =
     (Inl (Error ''Leather does not support signPsbts''),
      emit [Invoke ''Leather'' ''signPsbts''] with_leather)
   \<and> pushPsbt [JStr ''70736274''] with_leather =
     (Inl (Error ''Leather does not support pushPsbt''),
      emit [Invoke ''Leather'' ''pushPsbt''] with_leather)
   \<and> pushTx [JStr ''0200''] with_leather =
     (Inl (Error ''Leather does not support pushTx''),
      emit [Invoke ''Leather'' ''pushTx''] with_leather)
   \<and> sendInscription [JStr ''bc1q'', JStr ''abci0''] with_leather =
     (Inl (Error ''Leather does not support sendInscription''),
      emit [Invoke ''Leather'' ''sendInscription''] with_leather)
   \<and> inscribe [JStr ''hello''] with_leather =
     (Inl (Error ''Leather does not support inscribe''),
      emit [Invoke ''Leather'' ''inscribe''] with_leather)"
  using unsupported_operation_rejected [where st = with_leather and args = "[JStr ''testnet'']"
          and signPsbt = "\<lambda>_ _. (Inr (JStr ''signed''), [''request''])"]
        unsupported_operation_rejected [where st = with_leather and args = "[JArr [JStr ''70736274'']]"
          and signPsbt = "\<lambda>_ _. (Inr (JStr ''signed''), [''request''])"]
        unsupported_operation_rejected [where st = with_leather and args = "[JStr ''70736274'']"
          and signPsbt = "\<lambda>_ _. (Inr (JStr ''signed''), [''request''])"]
        unsupported_operation_rejected [where st = with_leather and args = "[JStr ''0200'']"
          and signPsbt = "\<lambda>_ _. (Inr (JStr ''signed''), [''request''])"]
        unsupported_operation_rejected [where st = with_leather and args = "[JStr ''bc1q'', JStr ''abci0'']"
          and signPsbt = "\<lambda>_ _. (Inr (JStr ''signed''), [''request''])"]
        unsupported_operation_rejected [where st = with_leather and args = "[JStr ''hello'']"
          and signPsbt = "\<lambda>_ _. (Inr (JStr ''signed''), [''request''])"]
  by (simp add: with_leather_provider leather_def leather_methods_def LeatherProvider_def
      truthy_str_def supportsMethod_def leather_features_def unsupported_def)

section \<open>Properties of connect\<close>

lemma no_disconnect_simps [simp]:
  "no_disconnect []" "no_disconnect (map (Handle n) hs)"
  "no_disconnect (es @ es') = (no_disconnect es \<and> no_disconnect es')"
  "no_disconnect [Invoke n ''connect'']" "no_disconnect [Invoke n ''getBalance'']"
  "no_disconnect [WarnNoBalance e]"
  by (auto simp: no_disconnect_def)

lemma connect_connected_cases:
  obtains (failed) e this' where "connect_m (impl p) (self p) = (Inl e, this')"
      "connect_connected walletName p st = (Inl e, st)"
  | (thrown) result this' e where "connect_m (impl p) (self p) = (Inr result, this')"
      "connect_connected walletName p st =
         (Inl e, snd (setState [IsConnected True, WalletType (Some walletName),
                             Address (str_or (res_address result) (address this')),
                             PublicKey (str_or (res_publicKey result) (publicKey this')),
                             Provider (Some (p\<lparr>self := this'\<rparr>))] st))"
      "\<not> quiet st"
  | (connected) result this' where "connect_m (impl p) (self p) = (Inr result, this')"
      "connect_connected walletName p st =
         (Inr (p\<lparr>self := this'\<rparr>),
          emit [Invoke (name this') ''getBalance'']
            (snd (setState [IsConnected True, WalletType (Some walletName),
                             Address (str_or (res_address result) (address this')),
                             PublicKey (str_or (res_publicKey result) (publicKey this')),
                             Provider (Some (p\<lparr>self := this'\<rparr>))] st)))"
proof (cases "connect_m (impl p) (self p)")
  case (Pair r this')
  show ?thesis
  proof (cases r)
    case (Inl e)
    with Pair show ?thesis by (intro failed [of e this']) (simp_all add: connect_connected_def)
  next
    case (Inr result)
    let ?S = "setState [IsConnected True, WalletType (Some walletName),
                             Address (str_or (res_address result) (address this')),
                             PublicKey (str_or (res_publicKey result) (publicKey this')),
                             Provider (Some (p\<lparr>self := this'\<rparr>))] st"
    obtain r0 st0 where S: "?S = (r0, st0)" by (cases ?S)
    show ?thesis
    proof (cases r0)
      case (Inl e)
      have "\<not> quiet st"
      proof
        assume "quiet st"
        then have "fst ?S = Inr ()" by (rule setState_quiet)
        with S Inl show False by simp
      qed
      with Pair Inr S Inl show ?thesis
        by (intro thrown [of result this' e]) (simp_all add: connect_connected_def Let_def)
    next
      case (Inr u)
      with Pair \<open>r = Inr result\<close> S show ?thesis
        by (intro connected [of result this']) (simp_all add: connect_connected_def Let_def)
    qed
  qed
qed

lemma connect_connected_frame:
  "subscribers (snd (connect_connected walletName p st)) = subscribers st
   \<and> (\<exists>es. trace (snd (connect_connected walletName p st)) = trace st @ es \<and> no_disconnect es)"
proof (cases rule: connect_connected_cases [of p walletName st])
  case (failed e this')
  then show ?thesis by simp
next
  case (thrown result this' e)
  then show ?thesis by simp
next
  case (connected result this')
  then show ?thesis by simp
qed

lemma connect_connected_state:
  assumes "connect_m (impl p) (self p) = (Inr result, this')"
  shows "(quiet st \<longrightarrow> fst (connect_connected walletName p st) = Inr (p\<lparr>self := this'\<rparr>))
       \<and> (keeps provider st \<longrightarrow>
            provider (current (snd (connect_connected walletName p st))) = Some (p\<lparr>self := this'\<rparr>))
       \<and> (keeps walletType st \<longrightarrow>
            walletType (current (snd (connect_connected walletName p st))) = Some walletName)
       \<and> (\<exists>e. fst (connect_connected walletName p st) = Inl e
            \<or> fst (connect_connected walletName p st) = Inr (p\<lparr>self := this'\<rparr>))"
proof (cases rule: connect_connected_cases [of p walletName st])
  case (failed e this'')
  with assms show ?thesis by simp
next
  case (thrown result' this'' e)
  with assms show ?thesis
    by (simp add: setState_keeps [of provider] setState_keeps [of walletType] spread_def)
next
  case (connected result' this'')
  with assms show ?thesis
    by (simp add: setState_keeps [of provider] setState_keeps [of walletType] spread_def)
qed

lemma connect_balance_cases:
  obtains (stored) b hs where
      "connect_balance p st =
         (Inr p, snd (setState [Balance (Some b)] (emit (map (Handle (name (self p))) hs) st)))"
  | (retried) b hs e r where
      "connect_balance p st =
         (r, snd (setState [Balance None]
                    (emit [WarnNoBalance e]
                       (snd (setState [Balance (Some b)] (emit (map (Handle (name (self p))) hs) st))))))"
      "\<not> quiet st" "r = Inr p \<or> (\<exists>e'. r = Inl e')"
  | (unavailable) hs e r where
      "connect_balance p st =
         (r, snd (setState [Balance None]
                    (emit [WarnNoBalance e] (emit (map (Handle (name (self p))) hs) st))))"
      "r = Inr p \<or> (\<exists>e'. r = Inl e')" "quiet st \<longrightarrow> r = Inr p"
proof (cases "getBalance_m (impl p) (self p)")
  case (Pair r0 hs)
  let ?st0 = "emit (map (Handle (name (self p))) hs) st"
  show ?thesis
  proof (cases r0)
    case (Inl e)
    let ?S = "setState [Balance None] (emit [WarnNoBalance e] ?st0)"
    obtain r1 st1 where S: "?S = (r1, st1)" by (cases ?S)
    have q: "quiet st \<longrightarrow> r1 = Inr ()"
      using setState_quiet [of "emit [WarnNoBalance e] ?st0" "[Balance None]"] S by simp
    show ?thesis
    proof (cases r1)
      case (Inl e1)
      with Pair \<open>r0 = Inl e\<close> S q show ?thesis
        by (intro unavailable [of "Inl e1" e hs]) (auto simp add: connect_balance_def Let_def)
    next
      case (Inr u)
      with Pair \<open>r0 = Inl e\<close> S show ?thesis
        by (intro unavailable [of "Inr p" e hs]) (auto simp add: connect_balance_def Let_def)
    qed
  next
    case (Inr balanceData)
    let ?S = "setState [Balance (Some (balanceInBTC balanceData))] ?st0"
    obtain r1 st1 where S: "?S = (r1, st1)" by (cases ?S)
    show ?thesis
    proof (cases r1)
      case (Inr u)
      with Pair \<open>r0 = Inr balanceData\<close> S show ?thesis
        by (intro stored [of "balanceInBTC balanceData" hs]) (simp add: connect_balance_def Let_def)
    next
      case (Inl e)
      have nq: "\<not> quiet st"
      proof
        assume "quiet st"
        then have "fst ?S = Inr ()" by (simp add: setState_quiet)
        with S Inl show False by simp
      qed
      let ?T = "setState [Balance None] (emit [WarnNoBalance e] st1)"
      obtain r2 st2 where T: "?T = (r2, st2)" by (cases ?T)
      have cb: "connect_balance p st = ((case r2 of Inl e2 \<Rightarrow> Inl e2 | Inr u \<Rightarrow> Inr p), st2)"
        using Pair \<open>r0 = Inr balanceData\<close> S Inl T
        by (simp add: connect_balance_def Let_def split: sum.splits)
      have "st1 = snd ?S" using S by simp
      with T have st2: "st2 = snd (setState [Balance None] (emit [WarnNoBalance e] (snd ?S)))"
        by simp
      show ?thesis
        by (rule retried [of "case r2 of Inl e2 \<Rightarrow> Inl e2 | Inr u \<Rightarrow> Inr p" e
              "balanceInBTC balanceData" hs])
           (simp_all add: cb st2 nq split: sum.splits)
    qed
  qed
qed

lemma connect_balance_frame:
  "subscribers (snd (connect_balance p st)) = subscribers st
   \<and> (\<exists>es. trace (snd (connect_balance p st)) = trace st @ es \<and> no_disconnect es)
   \<and> (quiet st \<longrightarrow> fst (connect_balance p st) = Inr p)
   \<and> (fst (connect_balance p st) = Inr p \<or> (\<exists>e. fst (connect_balance p st) = Inl e))"
  by (cases rule: connect_balance_cases [of p st]) auto

lemma connect_balance_keeps:
  assumes "keeps f st" and "\<And>s b. f (s\<lparr>balance := b\<rparr>) = f s"
  shows "f (current (snd (connect_balance p st))) = f (current st)"
proof -
  have k: "f (current (snd (setState [Balance b] st'))) = f (current st')" if "keeps f st'" for b st'
    using setState_keeps [OF that, of "[Balance b]"] assms(2) by (simp add: spread_def)
  show ?thesis
    using assms(1) by (cases rule: connect_balance_cases [of p st]) (simp_all add: k)
qed






section \<open>Properties of interleaved connects\<close>

lemma step_call_ok:
  assumes "createProvider classes walletName = Inr p"
  shows "step classes (Call walletName) (st, ts) =
           (emit [Invoke (name (self p)) ''connect''] st, ts @ [AwaitHandshake walletName p])"
  using assms by (simp add: connect_begin_def)

lemma step_settle_handshake:
  assumes "keeps walletType st" "i < length ts" "ts ! i = AwaitHandshake walletName p"
    and "connect_m (impl p) (self p) = (Inr result, this')"
  shows "\<exists>st' t. step classes (Settle i) (st, ts) = (st', ts[i := t])
           \<and> \<not> handshake_pending t
           \<and> keeps walletType st' \<and> walletType (current st') = Some walletName"
proof -
  obtain r st' where c: "connect_connected walletName p st = (r, st')"
    by (cases "connect_connected walletName p st")
  from connect_connected_frame [of walletName p st] c
  have "subscribers st' = subscribers st" by simp
  then have k: "keeps walletType st'" using assms(1) by (simp add: keeps_def)
  from connect_connected_state [OF assms(4), of st walletName] c assms(1)
  have w: "walletType (current st') = Some walletName" by simp
  show ?thesis
  proof (cases r)
    case (Inl e)
    with c k w assms(2,3) show ?thesis
      by (intro exI [of _ st'] exI [of _ "Rejected e"]) simp
  next
    case (Inr p')
    with c k w assms(2,3) show ?thesis
      by (intro exI [of _ st'] exI [of _ "AwaitBalance p'"]) simp
  qed
qed

lemma step_settle_settled:
  assumes "i < length ts \<longrightarrow> \<not> handshake_pending (ts ! i)" "keeps walletType st"
  shows "\<exists>st' t. step classes (Settle i) (st, ts) = (st', if i < length ts then ts[i := t] else ts)
           \<and> \<not> handshake_pending t
           \<and> keeps walletType st' \<and> walletType (current st') = walletType (current st)"
proof (cases "i < length ts")
  case False
  then show ?thesis using assms(2) by (auto intro: exI [of _ "Rejected e" for e])
next
  case True
  show ?thesis
  proof (cases "ts ! i")
    case (AwaitHandshake w p)
    with assms(1) True show ?thesis by simp
  next
    case (AwaitBalance p)
    obtain r st' where c: "connect_balance p st = (r, st')"
      by (cases "connect_balance p st")
    from connect_balance_frame [of p st] c
    have "subscribers st' = subscribers st" by simp
    then have k: "keeps walletType st'" using assms(2) by (simp add: keeps_def)
    from connect_balance_keeps [of walletType st p] c assms(2)
    have w: "walletType (current st') = walletType (current st)" by simp
    show ?thesis
    proof (cases r)
      case (Inl e)
      with c k w True AwaitBalance show ?thesis
        by (intro exI [of _ st'] exI [of _ "Rejected e"]) simp
    next
      case (Inr p')
      with c k w True AwaitBalance show ?thesis
        by (intro exI [of _ st'] exI [of _ "Resolved p'"]) simp
    qed
  next
    case (Resolved p)
    then have "ts[i := Resolved p] = ts" by (metis list_update_id)
    with Resolved show ?thesis using True assms(2)
      by (intro exI [of _ st] exI [of _ "Resolved p"]) simp
  next
    case (Rejected e)
    then have "ts[i := Rejected e] = ts" by (metis list_update_id)
    with Rejected show ?thesis using True assms(2)
      by (intro exI [of _ st] exI [of _ "Rejected e"]) simp
  qed
qed

declare step.simps [simp del]

text \<open>Once no handshake is pending, settling promises leaves \<open>walletType\<close> alone.\<close>

lemma run_settled:
  assumes "set acts \<subseteq> range Settle" "keeps walletType st" "\<forall>t \<in> set ts. \<not> handshake_pending t"
  shows "walletType (current (fst (run classes acts (st, ts)))) = walletType (current st)"
  using assms
proof (induction acts arbitrary: st ts)
  case Nil
  then show ?case by (simp add: run_def)
next
  case (Cons a acts)
  then obtain i where a: "a = Settle i" by auto
  have "i < length ts \<longrightarrow> \<not> handshake_pending (ts ! i)"
    using Cons.prems(3) by simp
  from step_settle_settled [OF this Cons.prems(2), of classes]
  obtain st' t where s: "step classes (Settle i) (st, ts) = (st', if i < length ts then ts[i := t] else ts)"
     "\<not> handshake_pending t" "keeps walletType st'" "walletType (current st') = walletType (current st)"
    by blast
  have "\<forall>t \<in> set (if i < length ts then ts[i := t] else ts). \<not> handshake_pending t"
    using Cons.prems(3) s(2) by (auto dest: subsetD [OF set_update_subset_insert])
  with Cons.IH [of st' "if i < length ts then ts[i := t] else ts"] Cons.prems(1) s
  show ?case by (simp add: run_def a)
qed

text \<open>
  While task \<open>i\<close> waits for its handshake, settling the promises of the other of two
  tasks leaves it waiting.
\<close>

lemma run_other_task:
  assumes "set acts \<subseteq> {Settle j}" "keeps walletType st" "length ts = 2" "i < 2" "j < 2" "i \<noteq> j"
    and "ts ! i = AwaitHandshake walletName p" "\<not> handshake_pending (ts ! j)"
  shows "\<exists>st' ts'. run classes acts (st, ts) = (st', ts') \<and> keeps walletType st' \<and> length ts' = 2
           \<and> ts' ! i = AwaitHandshake walletName p \<and> \<not> handshake_pending (ts' ! j)"
  using assms
proof (induction acts arbitrary: st ts)
  case Nil
  then show ?case by (simp add: run_def)
next
  case (Cons a acts)
  then have a: "a = Settle j" by simp
  have "j < length ts \<longrightarrow> \<not> handshake_pending (ts ! j)"
    using Cons.prems by simp
  from step_settle_settled [OF this Cons.prems(2), of classes]
  obtain st' t where s: "step classes (Settle j) (st, ts) = (st', ts[j := t])"
     "\<not> handshake_pending t" "keeps walletType st'"
    using Cons.prems(3,5) by auto
  have "\<exists>st'' ts''. run classes acts (st', ts[j := t]) = (st'', ts'') \<and> keeps walletType st'' \<and> length ts'' = 2
           \<and> ts'' ! i = AwaitHandshake walletName p \<and> \<not> handshake_pending (ts'' ! j)"
    using Cons.prems s(2,3) by (intro Cons.IH) auto
  then show ?case by (simp add: run_def a s(1))
qed

lemma run_append: "run classes (xs @ ys) w = run classes ys (run classes xs w)"
  by (simp add: run_def)

text \<open>
  Claim C1, as amended. Let \<open>connect(A)\<close> and then \<open>connect(B)\<close> be issued before
  either handshake resolves, let both handshakes succeed, and let no subscriber write
  \<open>walletType\<close>. Then the final \<open>walletType\<close> is that of the connect whose handshake
  resolves last, in whatever order the remaining promises settle: it is \<open>B\<close> when B's
  handshake resolves after A's (\<open>i = 1\<close>), and \<open>A\<close> when A's resolves after B's
  (\<open>i = 0\<close>). The tasks are numbered in the order of the calls.
\<close>

theorem connect_last_handshake_wins:
  assumes kw: "keeps walletType st"
    and c0: "createProvider classes A = Inr p0"
    and c1: "createProvider classes B = Inr p1"
    and h0: "connect_m (impl p0) (self p0) = (Inr result0, this0)"
    and h1: "connect_m (impl p1) (self p1) = (Inr result1, this1)"
    and ij: "i < 2" "j < 2" "i \<noteq> j"
    and mid: "set mid \<subseteq> {Settle j}" and rest: "set rest \<subseteq> range Settle"
  shows "walletType (current (fst (run classes
           ([Call A, Call B, Settle j] @ mid @ [Settle i] @ rest) (st, [])))) =
         Some (if i = 0 then A else B)"
proof -
  define st2 where "st2 = emit [Invoke (name (self p1)) ''connect''] (emit [Invoke (name (self p0)) ''connect''] st)"
  define ts2 where "ts2 = [AwaitHandshake A p0, AwaitHandshake B p1]"
  define n where "n k = (if k = 0 then A else B)" for k :: nat
  define p where "p k = (if k = 0 then p0 else p1)" for k :: nat
  define fld where "fld k = (if k = 0 then this0 else this1)" for k :: nat
  have calls: "run classes [Call A, Call B] (st, []) = (st2, ts2)"
    by (simp add: run_def step_call_ok [OF c0] step_call_ok [OF c1] st2_def ts2_def)
  have o2: "keeps walletType st2" using kw by (simp add: st2_def)
  have len2: "length ts2 = 2" by (simp add: ts2_def)
  have tsk: "ts2 ! k = AwaitHandshake (n k) (p k)" if "k < 2" for k
    using that by (cases k) (auto simp: ts2_def n_def p_def)
  have hk: "\<exists>r. connect_m (impl (p k)) (self (p k)) = (Inr r, fld k)" for k
    using h0 h1 by (auto simp: p_def fld_def)
  from hk [of j] obtain rj where hj: "connect_m (impl (p j)) (self (p j)) = (Inr rj, fld j)" ..
  from hk [of i] obtain ri where hi: "connect_m (impl (p i)) (self (p i)) = (Inr ri, fld i)" ..
  have "j < length ts2" using ij(2) len2 by simp
  from step_settle_handshake [OF o2 this tsk [OF ij(2)] hj, of classes]
  obtain st3 t3 where s3: "step classes (Settle j) (st2, ts2) = (st3, ts2[j := t3])"
    and n3: "\<not> handshake_pending t3" and o3: "keeps walletType st3"
    by blast
  define ts3 where "ts3 = ts2[j := t3]"
  have ts3: "length ts3 = 2" "ts3 ! i = AwaitHandshake (n i) (p i)"
      "\<not> handshake_pending (ts3 ! j)"
    using ij tsk [OF ij(1)] len2 n3 by (simp_all add: ts3_def)
  from run_other_task [OF mid o3 ts3(1) ij ts3(2,3), of classes]
  obtain st4 ts4 where r4: "run classes mid (st3, ts3) = (st4, ts4)" and o4: "keeps walletType st4"
    and ts4: "length ts4 = 2" "ts4 ! i = AwaitHandshake (n i) (p i)"
      "\<not> handshake_pending (ts4 ! j)"
    by blast
  have "i < length ts4" using ij(1) ts4(1) by simp
  from step_settle_handshake [OF o4 this ts4(2) hi, of classes]
  obtain st5 t5 where s5: "step classes (Settle i) (st4, ts4) = (st5, ts4[i := t5])"
    and n5: "\<not> handshake_pending t5" and o5: "keeps walletType st5"
    and w5: "walletType (current st5) = Some (n i)"
    by blast
  define ts5 where "ts5 = ts4[i := t5]"
  have "\<not> handshake_pending (ts5 ! k)" if "k < 2" for k
  proof (cases "k = i")
    case True
    then show ?thesis using ts4(1) ij(1) n5 by (simp add: ts5_def)
  next
    case False
    with that ij have "k = j" by auto
    then show ?thesis using ts4(3) ij(3) by (simp add: ts5_def)
  qed
  moreover have "length ts5 = 2" using ts4(1) by (simp add: ts5_def)
  ultimately have no: "\<forall>t \<in> set ts5. \<not> handshake_pending t"
    by (auto simp: in_set_conv_nth)
  have "run classes ([Call A, Call B, Settle j] @ mid @ [Settle i] @ rest) (st, []) =
        run classes (mid @ [Settle i] @ rest) (run classes [Settle j] (run classes [Call A, Call B] (st, [])))"
    by (simp add: run_def)
  also have "\<dots> = run classes ([Settle i] @ rest) (run classes mid (st3, ts3))"
    by (simp only: calls run_append) (simp add: run_def s3 ts3_def)
  also have "\<dots> = run classes rest (st5, ts5)"
    by (simp only: r4 run_append) (simp add: run_def s5 ts5_def)
  finally show ?thesis
    using run_settled [OF rest o5 no, of classes] w5 by (simp add: n_def)
qed

theorem connect_last_handshake_wins_witness:
  "walletType (current (fst (run sample_classes
      ([Call ''Leather'', Call ''MagicEden'', Settle 1] @ [Settle 1] @ [Settle 0] @ [Settle 0])
      (initial_store, [])))) = Some ''Leather''
   \<and> walletType (current (fst (run sample_classes
      ([Call ''Leather'', Call ''MagicEden'', Settle 0] @ [Settle 0] @ [Settle 1] @ [Settle 1])
      (initial_store, [])))) = Some ''MagicEden''"
  using connect_last_handshake_wins [where st = initial_store and classes = sample_classes
          and A = "''Leather''" and B = "''MagicEden''" and ?p0.0 = leather and ?p1.0 = magiceden
          and i = 0 and j = 1 and mid = "[Settle 1]" and rest = "[Settle 0]"]
        connect_last_handshake_wins [where st = initial_store and classes = sample_classes
          and A = "''Leather''" and B = "''MagicEden''" and ?p0.0 = leather and ?p1.0 = magiceden
          and i = 1 and j = 0 and mid = "[Settle 0]" and rest = "[Settle 1]"]
  by (simp add: keeps_def createProvider_def sample_defs)

text \<open>
  Claim C1 as stated fails when \<open>connect("Leather")\<close> is followed by
  \<open>connect("MagicEden")\<close>, Magic Eden's handshake and balance request settle first and
  Leather's after them: the final \<open>walletType\<close> is \<open>Leather\<close>.
\<close>

theorem connect_first_handshake_overwritten:
  "walletType (current (fst (run sample_classes
      [Call ''Leather'', Call ''MagicEden'', Settle 1, Settle 1, Settle 0, Settle 0]
      (initial_store, [])))) = Some ''Leather''"
  by (simp add: run_def step.simps facade_defs sample_defs magiceden_getBalance_def
      requireConnected_def)

end
